theory Spec2Isabelle
  imports Complex_Main "HOL-Library.Word"
begin

unbundle bit_operations_syntax

section \<open>multicam\_common: shared types, enums and constants of the MultiCam API\<close>

text \<open>
  A shallow embedding of the Python package \<open>multicam_common\<close>
  (\<open>status.py\<close>, \<open>constants.py\<close>, \<open>commands.py\<close>).

  Python strings are modelled as \<open>string\<close>; Python floats that are only stored and
  compared (timestamps, timeouts) are modelled as \<open>real\<close>, so the IEEE values
  \<open>nan\<close> and \<open>inf\<close> are outside the model.
\<close>

subsection \<open>\<open>str.lower\<close>\<close>

text \<open>
  \<open>str.lower()\<close> on the ASCII range: the letters \<open>A\<close> to \<open>Z\<close> are mapped to
  \<open>a\<close> to \<open>z\<close>, every other character is kept. Python also lower-cases
  letters outside ASCII; none of them becomes a letter that occurs in a status token, so
  the membership tests below are not affected.
\<close>

definition lower_char :: "char \<Rightarrow> char" where
  "lower_char c =
     (case map_of (zip ''ABCDEFGHIJKLMNOPQRSTUVWXYZ'' ''abcdefghijklmnopqrstuvwxyz'') c of
        Some d \<Rightarrow> d
      | None \<Rightarrow> c)"

definition lower :: "string \<Rightarrow> string" where
  "lower s = map lower_char s"

subsection \<open>\<open>status.py\<close>: class \<open>DeviceStatus\<close>\<close>

datatype DeviceStatus =
    READY
  | RECORDING
  | STOPPING
  | ERROR
  | SCHEDULED_RECORDING_ACCEPTED
  | RECORDING_STOPPED
  | COMMAND_RECEIVED
  | TIME_NOT_SYNCHRONIZED
  | FILE_NOT_FOUND
  | UPLOADING
  | UPLOAD_QUEUED
  | UPLOAD_COMPLETED
  | UPLOAD_FAILED

text \<open>The \<open>.value\<close> of each member of the string-backed enum.\<close>

primrec DeviceStatus_value :: "DeviceStatus \<Rightarrow> string" where
  "DeviceStatus_value READY = ''ready''"
| "DeviceStatus_value RECORDING = ''recording''"
| "DeviceStatus_value STOPPING = ''stopping''"
| "DeviceStatus_value ERROR = ''error''"
| "DeviceStatus_value SCHEDULED_RECORDING_ACCEPTED = ''scheduled_recording_accepted''"
| "DeviceStatus_value RECORDING_STOPPED = ''recording_stopped''"
| "DeviceStatus_value COMMAND_RECEIVED = ''command_received''"
| "DeviceStatus_value TIME_NOT_SYNCHRONIZED = ''time_not_synchronized''"
| "DeviceStatus_value FILE_NOT_FOUND = ''file_not_found''"
| "DeviceStatus_value UPLOADING = ''uploading''"
| "DeviceStatus_value UPLOAD_QUEUED = ''upload_queued''"
| "DeviceStatus_value UPLOAD_COMPLETED = ''upload_completed''"
| "DeviceStatus_value UPLOAD_FAILED = ''upload_failed''"

text \<open>The local set \<open>success_statuses\<close> of \<open>DeviceStatus.is_success\<close>.\<close>

definition success_statuses :: "string set" where
  "success_statuses =
     {DeviceStatus_value READY,
      DeviceStatus_value RECORDING,
      DeviceStatus_value SCHEDULED_RECORDING_ACCEPTED,
      DeviceStatus_value COMMAND_RECEIVED,
      DeviceStatus_value RECORDING_STOPPED,
      DeviceStatus_value STOPPING,
      DeviceStatus_value UPLOADING,
      DeviceStatus_value UPLOAD_QUEUED,
      DeviceStatus_value UPLOAD_COMPLETED}"

definition is_success :: "string \<Rightarrow> bool" where
  "is_success status = (lower status \<in> success_statuses)"

text \<open>The local set \<open>error_statuses\<close> of \<open>DeviceStatus.is_error\<close>.\<close>

definition error_statuses :: "string set" where
  "error_statuses =
     {DeviceStatus_value ERROR,
      DeviceStatus_value TIME_NOT_SYNCHRONIZED,
      DeviceStatus_value FILE_NOT_FOUND,
      DeviceStatus_value UPLOAD_FAILED}"

definition is_error :: "string \<Rightarrow> bool" where
  "is_error status = (lower status \<in> error_statuses)"

text \<open>
  What "a lowercase snake\_case token" means: a non-empty string of the letters \<open>a\<close> to
  \<open>z\<close> and underscores, with no underscore at either end and no two underscores in a
  row.
\<close>

definition lowercase_snake_case :: "string \<Rightarrow> bool" where
  "lowercase_snake_case s =
     (s \<noteq> [] \<and>
      list_all (\<lambda>c. c \<in> set ''abcdefghijklmnopqrstuvwxyz_'') s \<and>
      hd s \<noteq> CHR ''_'' \<and> last s \<noteq> CHR ''_'' \<and>
      list_all (\<lambda>p. p \<noteq> (CHR ''_'', CHR ''_'')) (zip s (tl s)))"

subsection \<open>\<open>constants.py\<close>\<close>

definition TCP_PORT :: int where
  "TCP_PORT = 8080"

definition SERVICE_TYPE :: string where
  "SERVICE_TYPE = ''_multicam._tcp.local.''"

definition NTP_SERVER :: string where
  "NTP_SERVER = ''pool.ntp.org''"

definition NTP_PORT :: int where
  "NTP_PORT = 123"

definition MAX_ACCEPTABLE_RTT :: real where
  "MAX_ACCEPTABLE_RTT = 0.5"

definition SYNC_DELAY :: real where
  "SYNC_DELAY = 3.0"

definition COMMAND_TIMEOUT :: real where
  "COMMAND_TIMEOUT = 60.0"

definition DOWNLOAD_STALL_TIMEOUT :: real where
  "DOWNLOAD_STALL_TIMEOUT = 600.0"

definition DOWNLOAD_CHUNK_SIZE :: int where
  "DOWNLOAD_CHUNK_SIZE = 8192"

definition FILE_ID_FORMAT :: string where
  "FILE_ID_FORMAT = ''{deviceId}_{timestamp}''"

definition SUCCESS_STATUSES :: "string set" where
  "SUCCESS_STATUSES =
     {''ready'',
      ''recording'',
      ''scheduled_recording_accepted'',
      ''command_received'',
      ''recording_stopped'',
      ''stopping''}"

section \<open>\<open>commands.py\<close>\<close>

subsection \<open>Python values and exceptions\<close>

text \<open>
  The classes of \<open>commands.py\<close> are dataclasses without any run-time type check:
  a field holds whatever value the caller or the JSON document supplied. Field values
  are therefore modelled as dynamically typed Python values, restricted to those that
  \<open>json.loads\<close> can produce. A \<open>dict\<close> with string keys is an association list
  in insertion order.
\<close>

datatype pyval =
    PNone
  | PBool bool
  | PInt int
  | PFloat real
  | PStr string
  | PList "pyval list"
  | PDict "(string \<times> pyval) list"

text \<open>The exceptions that the code of \<open>commands.py\<close> can raise.\<close>

datatype pyerror =
    JSONDecodeError
  | KeyError string
  | TypeError
  | ValueError
  | AttributeError

text \<open>
  A computation that may raise has a result of type \<open>pyerror + 'a\<close>; the first
  exception raised ends the evaluation.
\<close>

definition bind_result :: "pyerror + 'a \<Rightarrow> ('a \<Rightarrow> pyerror + 'b) \<Rightarrow> pyerror + 'b" where
  "bind_result r f = (case r of Inl e \<Rightarrow> Inl e | Inr x \<Rightarrow> f x)"

text \<open>\<open>data[key]\<close> for a string key: only a \<open>dict\<close> can be subscripted by a string.\<close>

fun subscript :: "pyval \<Rightarrow> string \<Rightarrow> pyerror + pyval" where
  "subscript (PDict kvs) key =
     (case map_of kvs key of Some v \<Rightarrow> Inr v | None \<Rightarrow> Inl (KeyError key))"
| "subscript v key = Inl TypeError"

text \<open>\<open>data.get(key, dflt)\<close>: only a \<open>dict\<close> has the method.\<close>

fun dict_get :: "pyval \<Rightarrow> string \<Rightarrow> pyval \<Rightarrow> pyerror + pyval" where
  "dict_get (PDict kvs) key dflt =
     Inr (case map_of kvs key of Some v \<Rightarrow> v | None \<Rightarrow> dflt)"
| "dict_get v key dflt = Inl AttributeError"

text \<open>
  The items of \<open>for item in v\<close>: the elements of a list, the keys of a dict, the
  one-character strings of a string; any other value is not iterable.
\<close>

fun py_iter :: "pyval \<Rightarrow> pyerror + pyval list" where
  "py_iter (PList xs) = Inr xs"
| "py_iter (PDict kvs) = Inr (map (\<lambda>kv. PStr (fst kv)) kvs)"
| "py_iter (PStr s) = Inr (map (\<lambda>c. PStr [c]) s)"
| "py_iter v = Inl TypeError"

text \<open>A list comprehension \<open>[f(item) for item in items]\<close> where \<open>f\<close> may raise.\<close>

fun map_result :: "('a \<Rightarrow> pyerror + 'b) \<Rightarrow> 'a list \<Rightarrow> pyerror + 'b list" where
  "map_result f [] = Inr []"
| "map_result f (x # xs) =
     bind_result (f x) (\<lambda>y. bind_result (map_result f xs) (\<lambda>ys. Inr (y # ys)))"

text \<open>Truth value testing, as \<open>x or y\<close> applies it.\<close>

fun truthy :: "pyval \<Rightarrow> bool" where
  "truthy PNone = False"
| "truthy (PBool b) = b"
| "truthy (PInt i) = (i \<noteq> 0)"
| "truthy (PFloat x) = (x \<noteq> 0)"
| "truthy (PStr s) = (s \<noteq> [])"
| "truthy (PList xs) = (xs \<noteq> [])"
| "truthy (PDict kvs) = (kvs \<noteq> [])"

subsection \<open>class \<open>CommandType\<close>\<close>

datatype CommandType =
    START_RECORDING
  | STOP_RECORDING
  | DEVICE_STATUS
  | GET_VIDEO
  | HEARTBEAT
  | LIST_FILES
  | UPLOAD_TO_CLOUD

primrec CommandType_value :: "CommandType \<Rightarrow> string" where
  "CommandType_value START_RECORDING = ''START_RECORDING''"
| "CommandType_value STOP_RECORDING = ''STOP_RECORDING''"
| "CommandType_value DEVICE_STATUS = ''DEVICE_STATUS''"
| "CommandType_value GET_VIDEO = ''GET_VIDEO''"
| "CommandType_value HEARTBEAT = ''HEARTBEAT''"
| "CommandType_value LIST_FILES = ''LIST_FILES''"
| "CommandType_value UPLOAD_TO_CLOUD = ''UPLOAD_TO_CLOUD''"

definition CommandType_members :: "CommandType list" where
  "CommandType_members =
     [START_RECORDING, STOP_RECORDING, DEVICE_STATUS, GET_VIDEO, HEARTBEAT, LIST_FILES,
      UPLOAD_TO_CLOUD]"

text \<open>
  The call \<open>CommandType(v)\<close>: the member whose value is \<open>v\<close>, and \<open>ValueError\<close>
  when there is none (in particular when \<open>v\<close> is not a string).
\<close>

fun CommandType_call :: "pyval \<Rightarrow> pyerror + CommandType" where
  "CommandType_call (PStr s) =
     (case find (\<lambda>m. CommandType_value m = s) CommandType_members of
        Some m \<Rightarrow> Inr m
      | None \<Rightarrow> Inl ValueError)"
| "CommandType_call v = Inl ValueError"

subsection \<open>class \<open>CommandMessage\<close>\<close>

text \<open>
  The fields of each dataclass carry a prefix naming the class (\<open>cm_\<close> for
  \<open>CommandMessage\<close>), since several classes have fields of the same name. The field
  \<open>command\<close> is a member of \<open>CommandType\<close>, as every constructor of the class and
  \<open>from_json\<close> make it.
\<close>

record CommandMessage =
  cm_command :: CommandType
  cm_timestamp :: pyval
  cm_deviceId :: pyval
  cm_fileName :: pyval
  cm_uploadUrl :: pyval

text \<open>The dict \<open>data\<close> that \<open>to_json\<close> builds and hands to \<open>json.dumps\<close>.\<close>

definition CommandMessage_to_json_data :: "CommandMessage \<Rightarrow> pyval" where
  "CommandMessage_to_json_data self =
     PDict [(''command'', PStr (CommandType_value (cm_command self))),
            (''timestamp'', cm_timestamp self),
            (''deviceId'', cm_deviceId self),
            (''fileName'', cm_fileName self),
            (''uploadUrl'', cm_uploadUrl self)]"

text \<open>
  \<open>json.dumps\<close> and \<open>json.loads\<close> belong to the Python standard library, not to
  the package; the functions that call them take them as the parameters \<open>dumps\<close> and
  \<open>loads\<close>.
\<close>

definition CommandMessage_to_json :: "(pyval \<Rightarrow> string) \<Rightarrow> CommandMessage \<Rightarrow> string" where
  "CommandMessage_to_json dumps self = dumps (CommandMessage_to_json_data self)"

definition CommandMessage_from_json ::
  "(string \<Rightarrow> pyerror + pyval) \<Rightarrow> string \<Rightarrow> pyerror + CommandMessage" where
  "CommandMessage_from_json loads json_str =
     bind_result (loads json_str) (\<lambda>data.
     bind_result (subscript data ''command'') (\<lambda>c.
     bind_result (CommandType_call c) (\<lambda>cmd.
     bind_result (subscript data ''timestamp'') (\<lambda>ts.
     bind_result (dict_get data ''deviceId'' (PStr ''controller'')) (\<lambda>dev.
     bind_result (dict_get data ''fileName'' PNone) (\<lambda>fname.
     bind_result (dict_get data ''uploadUrl'' PNone) (\<lambda>url.
     Inr \<lparr>cm_command = cmd, cm_timestamp = ts, cm_deviceId = dev, cm_fileName = fname,
          cm_uploadUrl = url\<rparr>)))))))"

text \<open>
  The class-method constructors. \<open>now\<close> is the value that \<open>time.time()\<close> returns
  when it is called.
\<close>

definition start_recording :: "real \<Rightarrow> pyval \<Rightarrow> pyval \<Rightarrow> CommandMessage" where
  "start_recording now timestamp device_id =
     \<lparr>cm_command = START_RECORDING,
      cm_timestamp = (if truthy timestamp then timestamp else PFloat now),
      cm_deviceId = device_id, cm_fileName = PNone, cm_uploadUrl = PNone\<rparr>"

definition stop_recording :: "real \<Rightarrow> pyval \<Rightarrow> CommandMessage" where
  "stop_recording now device_id =
     \<lparr>cm_command = STOP_RECORDING, cm_timestamp = PFloat now, cm_deviceId = device_id,
      cm_fileName = PNone, cm_uploadUrl = PNone\<rparr>"

definition device_status :: "real \<Rightarrow> pyval \<Rightarrow> CommandMessage" where
  "device_status now device_id =
     \<lparr>cm_command = DEVICE_STATUS, cm_timestamp = PFloat now, cm_deviceId = device_id,
      cm_fileName = PNone, cm_uploadUrl = PNone\<rparr>"

definition get_video :: "real \<Rightarrow> pyval \<Rightarrow> pyval \<Rightarrow> CommandMessage" where
  "get_video now file_name device_id =
     \<lparr>cm_command = GET_VIDEO, cm_timestamp = PFloat now, cm_deviceId = device_id,
      cm_fileName = file_name, cm_uploadUrl = PNone\<rparr>"

definition heartbeat :: "real \<Rightarrow> pyval \<Rightarrow> CommandMessage" where
  "heartbeat now device_id =
     \<lparr>cm_command = HEARTBEAT, cm_timestamp = PFloat now, cm_deviceId = device_id,
      cm_fileName = PNone, cm_uploadUrl = PNone\<rparr>"

definition list_files :: "real \<Rightarrow> pyval \<Rightarrow> CommandMessage" where
  "list_files now device_id =
     \<lparr>cm_command = LIST_FILES, cm_timestamp = PFloat now, cm_deviceId = device_id,
      cm_fileName = PNone, cm_uploadUrl = PNone\<rparr>"

definition upload_to_cloud :: "real \<Rightarrow> pyval \<Rightarrow> pyval \<Rightarrow> pyval \<Rightarrow> CommandMessage" where
  "upload_to_cloud now file_name upload_url device_id =
     \<lparr>cm_command = UPLOAD_TO_CLOUD, cm_timestamp = PFloat now, cm_deviceId = device_id,
      cm_fileName = file_name, cm_uploadUrl = upload_url\<rparr>"

subsection \<open>class \<open>UploadItem\<close>\<close>

record UploadItem =
  ui_fileName :: pyval
  ui_fileSize :: pyval
  ui_bytesUploaded :: pyval
  ui_uploadProgress :: pyval
  ui_uploadSpeed :: pyval
  ui_status :: pyval
  ui_uploadUrl :: pyval
  ui_error :: pyval

definition UploadItem_from_dict :: "pyval \<Rightarrow> pyerror + UploadItem" where
  "UploadItem_from_dict data =
     bind_result (subscript data ''fileName'') (\<lambda>a.
     bind_result (subscript data ''fileSize'') (\<lambda>b.
     bind_result (subscript data ''bytesUploaded'') (\<lambda>c.
     bind_result (subscript data ''uploadProgress'') (\<lambda>d.
     bind_result (subscript data ''uploadSpeed'') (\<lambda>e.
     bind_result (subscript data ''status'') (\<lambda>f.
     bind_result (subscript data ''uploadUrl'') (\<lambda>g.
     bind_result (dict_get data ''error'' PNone) (\<lambda>h.
     Inr \<lparr>ui_fileName = a, ui_fileSize = b, ui_bytesUploaded = c, ui_uploadProgress = d,
          ui_uploadSpeed = e, ui_status = f, ui_uploadUrl = g, ui_error = h\<rparr>))))))))"

text \<open>\<open>dataclasses.asdict\<close> of an \<open>UploadItem\<close>: its fields in declaration order.\<close>

definition UploadItem_asdict :: "UploadItem \<Rightarrow> pyval" where
  "UploadItem_asdict item =
     PDict [(''fileName'', ui_fileName item),
            (''fileSize'', ui_fileSize item),
            (''bytesUploaded'', ui_bytesUploaded item),
            (''uploadProgress'', ui_uploadProgress item),
            (''uploadSpeed'', ui_uploadSpeed item),
            (''status'', ui_status item),
            (''uploadUrl'', ui_uploadUrl item),
            (''error'', ui_error item)]"

subsection \<open>class \<open>StatusResponse\<close>\<close>

record StatusResponse =
  sr_deviceId :: pyval
  sr_status :: pyval
  sr_timestamp :: pyval
  sr_batteryLevel :: pyval
  sr_uploadQueue :: "UploadItem list"
  sr_failedUploadQueue :: "UploadItem list"

text \<open>
  The comprehension \<open>[UploadItem.from_dict(item) for item in data.get(key, [])]\<close> of
  \<open>StatusResponse.from_json\<close>.
\<close>

definition upload_items_of :: "pyval \<Rightarrow> string \<Rightarrow> pyerror + UploadItem list" where
  "upload_items_of data key =
     bind_result (dict_get data key (PList [])) (\<lambda>v.
     bind_result (py_iter v) (\<lambda>items.
     map_result UploadItem_from_dict items))"

definition StatusResponse_from_json ::
  "(string \<Rightarrow> pyerror + pyval) \<Rightarrow> string \<Rightarrow> pyerror + StatusResponse" where
  "StatusResponse_from_json loads json_str =
     bind_result (loads json_str) (\<lambda>data.
     bind_result (upload_items_of data ''uploadQueue'') (\<lambda>upload_queue.
     bind_result (upload_items_of data ''failedUploadQueue'') (\<lambda>failed_upload_queue.
     bind_result (subscript data ''deviceId'') (\<lambda>dev.
     bind_result (subscript data ''status'') (\<lambda>st.
     bind_result (subscript data ''timestamp'') (\<lambda>ts.
     bind_result (dict_get data ''batteryLevel'' PNone) (\<lambda>bat.
     Inr \<lparr>sr_deviceId = dev, sr_status = st, sr_timestamp = ts, sr_batteryLevel = bat,
          sr_uploadQueue = upload_queue,
          sr_failedUploadQueue = failed_upload_queue\<rparr>)))))))"

definition StatusResponse_to_json_data :: "StatusResponse \<Rightarrow> pyval" where
  "StatusResponse_to_json_data self =
     PDict [(''deviceId'', sr_deviceId self),
            (''status'', sr_status self),
            (''timestamp'', sr_timestamp self),
            (''batteryLevel'', sr_batteryLevel self),
            (''uploadQueue'', PList (map UploadItem_asdict (sr_uploadQueue self))),
            (''failedUploadQueue'', PList (map UploadItem_asdict (sr_failedUploadQueue self)))]"

definition StatusResponse_to_json :: "(pyval \<Rightarrow> string) \<Rightarrow> StatusResponse \<Rightarrow> string" where
  "StatusResponse_to_json dumps self = dumps (StatusResponse_to_json_data self)"

subsection \<open>class \<open>StopRecordingResponse\<close>\<close>

record StopRecordingResponse =
  srr_deviceId :: pyval
  srr_status :: pyval
  srr_timestamp :: pyval
  srr_fileName :: pyval
  srr_fileSize :: pyval

definition StopRecordingResponse_from_json ::
  "(string \<Rightarrow> pyerror + pyval) \<Rightarrow> string \<Rightarrow> pyerror + StopRecordingResponse" where
  "StopRecordingResponse_from_json loads json_str =
     bind_result (loads json_str) (\<lambda>data.
     bind_result (subscript data ''deviceId'') (\<lambda>dev.
     bind_result (subscript data ''status'') (\<lambda>st.
     bind_result (subscript data ''timestamp'') (\<lambda>ts.
     bind_result (subscript data ''fileName'') (\<lambda>fname.
     bind_result (subscript data ''fileSize'') (\<lambda>fsize.
     Inr \<lparr>srr_deviceId = dev, srr_status = st, srr_timestamp = ts, srr_fileName = fname,
          srr_fileSize = fsize\<rparr>))))))"

definition StopRecordingResponse_asdict :: "StopRecordingResponse \<Rightarrow> pyval" where
  "StopRecordingResponse_asdict self =
     PDict [(''deviceId'', srr_deviceId self),
            (''status'', srr_status self),
            (''timestamp'', srr_timestamp self),
            (''fileName'', srr_fileName self),
            (''fileSize'', srr_fileSize self)]"

definition StopRecordingResponse_to_json ::
  "(pyval \<Rightarrow> string) \<Rightarrow> StopRecordingResponse \<Rightarrow> string" where
  "StopRecordingResponse_to_json dumps self = dumps (StopRecordingResponse_asdict self)"

subsection \<open>class \<open>ErrorResponse\<close>\<close>

record ErrorResponse =
  er_deviceId :: pyval
  er_status :: pyval
  er_timestamp :: pyval
  er_message :: pyval

definition ErrorResponse_from_json ::
  "(string \<Rightarrow> pyerror + pyval) \<Rightarrow> string \<Rightarrow> pyerror + ErrorResponse" where
  "ErrorResponse_from_json loads json_str =
     bind_result (loads json_str) (\<lambda>data.
     bind_result (subscript data ''deviceId'') (\<lambda>dev.
     bind_result (subscript data ''status'') (\<lambda>st.
     bind_result (subscript data ''timestamp'') (\<lambda>ts.
     bind_result (subscript data ''message'') (\<lambda>msg.
     Inr \<lparr>er_deviceId = dev, er_status = st, er_timestamp = ts, er_message = msg\<rparr>)))))"

definition ErrorResponse_asdict :: "ErrorResponse \<Rightarrow> pyval" where
  "ErrorResponse_asdict self =
     PDict [(''deviceId'', er_deviceId self),
            (''status'', er_status self),
            (''timestamp'', er_timestamp self),
            (''message'', er_message self)]"

definition ErrorResponse_to_json :: "(pyval \<Rightarrow> string) \<Rightarrow> ErrorResponse \<Rightarrow> string" where
  "ErrorResponse_to_json dumps self = dumps (ErrorResponse_asdict self)"

subsection \<open>class \<open>FileMetadata\<close>\<close>

record FileMetadata =
  fm_fileName :: pyval
  fm_fileSize :: pyval
  fm_creationDate :: pyval
  fm_modificationDate :: pyval

definition FileMetadata_from_dict :: "pyval \<Rightarrow> pyerror + FileMetadata" where
  "FileMetadata_from_dict data =
     bind_result (subscript data ''fileName'') (\<lambda>a.
     bind_result (subscript data ''fileSize'') (\<lambda>b.
     bind_result (subscript data ''creationDate'') (\<lambda>c.
     bind_result (subscript data ''modificationDate'') (\<lambda>d.
     Inr \<lparr>fm_fileName = a, fm_fileSize = b, fm_creationDate = c,
          fm_modificationDate = d\<rparr>))))"

definition FileMetadata_asdict :: "FileMetadata \<Rightarrow> pyval" where
  "FileMetadata_asdict f =
     PDict [(''fileName'', fm_fileName f),
            (''fileSize'', fm_fileSize f),
            (''creationDate'', fm_creationDate f),
            (''modificationDate'', fm_modificationDate f)]"

subsection \<open>class \<open>FileResponse\<close>\<close>

record FileResponse =
  fr_deviceId :: pyval
  fr_fileName :: pyval
  fr_fileSize :: pyval
  fr_status :: pyval

definition FileResponse_from_json ::
  "(string \<Rightarrow> pyerror + pyval) \<Rightarrow> string \<Rightarrow> pyerror + FileResponse" where
  "FileResponse_from_json loads json_str =
     bind_result (loads json_str) (\<lambda>data.
     bind_result (subscript data ''deviceId'') (\<lambda>dev.
     bind_result (subscript data ''fileName'') (\<lambda>fname.
     bind_result (subscript data ''fileSize'') (\<lambda>fsize.
     bind_result (subscript data ''status'') (\<lambda>st.
     Inr \<lparr>fr_deviceId = dev, fr_fileName = fname, fr_fileSize = fsize,
          fr_status = st\<rparr>)))))"

definition FileResponse_asdict :: "FileResponse \<Rightarrow> pyval" where
  "FileResponse_asdict self =
     PDict [(''deviceId'', fr_deviceId self),
            (''fileName'', fr_fileName self),
            (''fileSize'', fr_fileSize self),
            (''status'', fr_status self)]"

definition FileResponse_to_json :: "(pyval \<Rightarrow> string) \<Rightarrow> FileResponse \<Rightarrow> string" where
  "FileResponse_to_json dumps self = dumps (FileResponse_asdict self)"

subsection \<open>class \<open>ListFilesResponse\<close>\<close>

record ListFilesResponse =
  lfr_deviceId :: pyval
  lfr_status :: pyval
  lfr_timestamp :: pyval
  lfr_files :: "FileMetadata list"

definition ListFilesResponse_from_json ::
  "(string \<Rightarrow> pyerror + pyval) \<Rightarrow> string \<Rightarrow> pyerror + ListFilesResponse" where
  "ListFilesResponse_from_json loads json_str =
     bind_result (loads json_str) (\<lambda>data.
     bind_result (dict_get data ''files'' (PList [])) (\<lambda>v.
     bind_result (py_iter v) (\<lambda>items.
     bind_result (map_result FileMetadata_from_dict items) (\<lambda>files.
     bind_result (subscript data ''deviceId'') (\<lambda>dev.
     bind_result (subscript data ''status'') (\<lambda>st.
     bind_result (subscript data ''timestamp'') (\<lambda>ts.
     Inr \<lparr>lfr_deviceId = dev, lfr_status = st, lfr_timestamp = ts,
          lfr_files = files\<rparr>)))))))"

definition ListFilesResponse_to_json_data :: "ListFilesResponse \<Rightarrow> pyval" where
  "ListFilesResponse_to_json_data self =
     PDict [(''deviceId'', lfr_deviceId self),
            (''status'', lfr_status self),
            (''timestamp'', lfr_timestamp self),
            (''files'', PList (map FileMetadata_asdict (lfr_files self)))]"

definition ListFilesResponse_to_json ::
  "(pyval \<Rightarrow> string) \<Rightarrow> ListFilesResponse \<Rightarrow> string" where
  "ListFilesResponse_to_json dumps self = dumps (ListFilesResponse_to_json_data self)"

section \<open>The binary framing of a file transfer\<close>

text \<open>
  The docstring of \<open>FileResponse\<close> describes the reply to a successful
  \<open>GET_VIDEO\<close>: "1. Header size (4 bytes, big-endian uint32) 2. JSON FileResponse
  header 3. Binary file data". The package holds the header class only; the functions
  that write and read the frame are not part of it.
\<close>

type_synonym byte = "8 word"

text \<open>
  Modelled from the spec: the 4-byte big-endian unsigned length prefix
  ("a 4-byte big-endian unsigned length prefix"). The package has no code for it.
\<close>

definition be32_encode :: "32 word \<Rightarrow> byte list" where
  "be32_encode w =
     [ucast (drop_bit 24 w), ucast (drop_bit 16 w), ucast (drop_bit 8 w), ucast w]"

text \<open>
  Modelled from the spec: reading the big-endian prefix back, most significant byte
  first. The package has no code for it.
\<close>

definition be32_decode :: "byte list \<Rightarrow> 32 word" where
  "be32_decode bs = foldl (\<lambda>acc b. push_bit 8 acc OR ucast b) 0 bs"

text \<open>
  Modelled from the spec: a JSON text on the wire ("UTF-8 JSON object"). A
  \<open>string\<close> is the sequence of the bytes of the UTF-8 encoding, so encoding and
  decoding change the type of the elements only. The package has no code for the
  framing that uses them.
\<close>

definition utf8_encode :: "string \<Rightarrow> byte list" where
  "utf8_encode s = map (\<lambda>c. word_of_nat (of_char c)) s"

definition utf8_decode :: "byte list \<Rightarrow> string" where
  "utf8_decode bs = map (\<lambda>b. char_of (unat b)) bs"

text \<open>
  Modelled from the spec: the errors of the wire codec ("\<open>DecodeError\<close> (malformed
  JSON, missing field, unknown command, truncated binary stream)"). The package raises
  Python exceptions and has no such type.
\<close>

datatype DecodeError =
    MalformedJson
  | MissingField string
  | UnknownCommand
  | TruncatedStream

text \<open>
  Modelled from the spec: how an exception of \<open>from_json\<close> is reported by the wire
  codec ("decode fails with \<open>DecodeError::MalformedJson\<close> or
  \<open>DecodeError::MissingField(name)\<close> if a required field is absent"). The package has
  no code for it.
\<close>

fun decode_error_of :: "pyerror \<Rightarrow> DecodeError" where
  "decode_error_of (KeyError name) = MissingField name"
| "decode_error_of e = MalformedJson"

text \<open>
  Modelled from the spec: the encoder of the framing ("a 4-byte big-endian unsigned
  length prefix, followed by that many bytes of JSON-encoded FileResponse header
  \{deviceId, fileName, fileSize, status\}, followed immediately by exactly fileSize raw
  bytes of file content"). The package has no code for it; the header is serialised by
  \<open>FileResponse.to_json\<close> of the package.
\<close>

definition frame_encode :: "(pyval \<Rightarrow> string) \<Rightarrow> FileResponse \<Rightarrow> byte list \<Rightarrow> byte list" where
  "frame_encode dumps header content =
     (let js = utf8_encode (FileResponse_to_json dumps header)
      in be32_encode (word_of_nat (length js)) @ js @ content)"

text \<open>
  Modelled from the spec: the decoder of the framing ("Decode of this framing must read
  the length prefix, read exactly that many header bytes, parse JSON, then stream exactly
  fileSize payload bytes -- short reads are a \<open>DecodeError::TruncatedStream\<close>"). The
  package has no code for it; the header is parsed by \<open>FileResponse.from_json\<close> of the
  package. The spec does not say what a header whose \<open>fileSize\<close> is not a
  non-negative integer gives; the model reports it as malformed. The result is the
  header and the payload.
\<close>

definition frame_decode ::
  "(string \<Rightarrow> pyerror + pyval) \<Rightarrow> byte list \<Rightarrow> DecodeError + (FileResponse \<times> byte list)" where
  "frame_decode loads stream =
     (if length stream < 4 then Inl TruncatedStream
      else
        let n = unat (be32_decode (take 4 stream)); rest = drop 4 stream
        in if length rest < n then Inl TruncatedStream
           else
             (case FileResponse_from_json loads (utf8_decode (take n rest)) of
                Inl e \<Rightarrow> Inl (decode_error_of e)
              | Inr header \<Rightarrow>
                  (case fr_fileSize header of
                     PInt file_size \<Rightarrow>
                       if file_size < 0 then Inl MalformedJson
                       else if int (length (drop n rest)) < file_size then Inl TruncatedStream
                       else Inr (header, take (nat file_size) (drop n rest))
                   | _ \<Rightarrow> Inl MalformedJson)))"

section \<open>The invariant stated for \<open>CommandMessage\<close>\<close>

text \<open>
  The specification's invariant, in its words: "fileName required for GET\_VIDEO and
  UPLOAD\_TO\_CLOUD; uploadUrl required for UPLOAD\_TO\_CLOUD". A required field is one
  that is not \<open>None\<close>. The package has no function that checks it.
\<close>

definition required_fields_present :: "CommandMessage \<Rightarrow> bool" where
  "required_fields_present m =
     ((cm_command m = GET_VIDEO \<or> cm_command m = UPLOAD_TO_CLOUD \<longrightarrow>
         cm_fileName m \<noteq> PNone) \<and>
      (cm_command m = UPLOAD_TO_CLOUD \<longrightarrow> cm_uploadUrl m \<noteq> PNone))"

section \<open>Example documents\<close>

text \<open>
  A finite fragment of \<open>json.dumps\<close> and \<open>json.loads\<close>, used to run the
  definitions above on concrete messages: each entry is a JSON text, as \<open>json.dumps\<close>
  prints it, with the value that \<open>json.loads\<close> returns for it.
\<close>

definition json_examples :: "(string \<times> pyval) list" where
  \<open>json_examples =
     [
      (''{"command": "UPLOAD_TO_CLOUD", "timestamp": 1729000000.5, '' @
       ''"deviceId": "controller", "fileName": "clip_001.mp4", '' @
       ''"uploadUrl": "https://bucket.example/clip_001.mp4"}'',
       PDict [(''command'', PStr ''UPLOAD_TO_CLOUD''),
         (''timestamp'', PFloat 1729000000.5), (''deviceId'', PStr ''controller''),
         (''fileName'', PStr ''clip_001.mp4''),
         (''uploadUrl'', PStr ''https://bucket.example/clip_001.mp4'')]),
      (''{"deviceId": "Mountain-A1B2C3D4", "status": "uploading", '' @
       ''"timestamp": 1729000000.5, "batteryLevel": null, "uploadQueue": '' @
       ''[{"fileName": "clip_001.mp4", "fileSize": 524288, '' @
       ''"bytesUploaded": 262144, "uploadProgress": 50.0, "uploadSpeed": '' @
       ''65536, "status": "uploading", "uploadUrl": '' @
       ''"https://bucket.example/clip_001.mp4", "error": null}], '' @
       ''"failedUploadQueue": []}'',
       PDict [(''deviceId'', PStr ''Mountain-A1B2C3D4''),
         (''status'', PStr ''uploading''), (''timestamp'', PFloat 1729000000.5),
         (''batteryLevel'', PNone),
         (''uploadQueue'', PList [PDict [(''fileName'', PStr ''clip_001.mp4''),
         (''fileSize'', PInt 524288), (''bytesUploaded'', PInt 262144),
         (''uploadProgress'', PFloat 50.0), (''uploadSpeed'', PInt 65536),
         (''status'', PStr ''uploading''),
         (''uploadUrl'', PStr ''https://bucket.example/clip_001.mp4''),
         (''error'', PNone)]]), (''failedUploadQueue'', PList [])]),
      (''{"deviceId": "Mountain-A1B2C3D4", "status": "recording_stopped", '' @
       ''"timestamp": 1729000000.5, "fileName": "clip_001.mp4", '' @
       ''"fileSize": 524288}'',
       PDict [(''deviceId'', PStr ''Mountain-A1B2C3D4''),
         (''status'', PStr ''recording_stopped''), (''timestamp'', PFloat 1729000000.5),
         (''fileName'', PStr ''clip_001.mp4''), (''fileSize'', PInt 524288)]),
      (''{"deviceId": "Mountain-A1B2C3D4", "status": "file_not_found", '' @
       ''"timestamp": 1729000000.5, "message": "no such file"}'',
       PDict [(''deviceId'', PStr ''Mountain-A1B2C3D4''),
         (''status'', PStr ''file_not_found''), (''timestamp'', PFloat 1729000000.5),
         (''message'', PStr ''no such file'')]),
      (''{"deviceId": "Mountain-A1B2C3D4", "fileName": "clip_001.mp4", '' @
       ''"fileSize": 524288, "status": "ready"}'',
       PDict [(''deviceId'', PStr ''Mountain-A1B2C3D4''),
         (''fileName'', PStr ''clip_001.mp4''), (''fileSize'', PInt 524288),
         (''status'', PStr ''ready'')]),
      (''{"deviceId": "Mountain-A1B2C3D4", "status": "ready", "timestamp": '' @
       ''1729000000.5, "files": [{"fileName": "clip_001.mp4", "fileSize": '' @
       ''524288, "creationDate": 1728999000.25, "modificationDate": '' @
       ''1728999900.75}]}'',
       PDict [(''deviceId'', PStr ''Mountain-A1B2C3D4''),
         (''status'', PStr ''ready''), (''timestamp'', PFloat 1729000000.5),
         (''files'', PList [PDict [(''fileName'', PStr ''clip_001.mp4''),
         (''fileSize'', PInt 524288), (''creationDate'', PFloat 1728999000.25),
         (''modificationDate'', PFloat 1728999900.75)]])]),
      (''{"command": "GET_VIDEO", "timestamp": 1729000000.5}'',
       PDict [(''command'', PStr ''GET_VIDEO''),
         (''timestamp'', PFloat 1729000000.5)]),
      (''{"timestamp": 1729000000.5}'',
       PDict [(''timestamp'', PFloat 1729000000.5)]),
      (''{"command": "HEARTBEAT"}'',
       PDict [(''command'', PStr ''HEARTBEAT'')]),
      (''{"command": "REBOOT", "timestamp": 1729000000.5}'',
       PDict [(''command'', PStr ''REBOOT''), (''timestamp'', PFloat 1729000000.5)]),
      (''{"deviceId": "Mountain-A1B2C3D4", "status": "ready", "timestamp": '' @
       ''1729000000.5, "batteryLevel": 87.5}'',
       PDict [(''deviceId'', PStr ''Mountain-A1B2C3D4''),
         (''status'', PStr ''ready''), (''timestamp'', PFloat 1729000000.5),
         (''batteryLevel'', PFloat 87.5)])
     ]\<close>

text \<open>
  \<open>json.loads\<close> on the texts of the table; a text outside the table, such as the
  cut-off text \<open>{"command": \<close>, is reported as not decodable.
\<close>

definition loads_example :: "string \<Rightarrow> pyerror + pyval" where
  "loads_example s =
     (case map_of json_examples s of Some v \<Rightarrow> Inr v | None \<Rightarrow> Inl JSONDecodeError)"

text \<open>
  \<open>json.dumps\<close> on the values of the table (the empty text for a value outside the
  table).
\<close>

definition dumps_example :: "pyval \<Rightarrow> string" where
  "dumps_example v =
     (case find (\<lambda>entry. snd entry = v) json_examples of
        Some entry \<Rightarrow> fst entry
      | None \<Rightarrow> [])"

text \<open>One message of each class; the table holds the JSON text of each.\<close>

definition example_command :: CommandMessage where
  "example_command =
     upload_to_cloud 1729000000.5 (PStr ''clip_001.mp4'')
       (PStr ''https://bucket.example/clip_001.mp4'') (PStr ''controller'')"

definition example_upload_item :: UploadItem where
  "example_upload_item =
     \<lparr>ui_fileName = PStr ''clip_001.mp4'', ui_fileSize = PInt 524288,
      ui_bytesUploaded = PInt 262144, ui_uploadProgress = PFloat 50.0,
      ui_uploadSpeed = PInt 65536, ui_status = PStr ''uploading'',
      ui_uploadUrl = PStr ''https://bucket.example/clip_001.mp4'', ui_error = PNone\<rparr>"

definition example_status :: StatusResponse where
  "example_status =
     \<lparr>sr_deviceId = PStr ''Mountain-A1B2C3D4'', sr_status = PStr ''uploading'',
      sr_timestamp = PFloat 1729000000.5, sr_batteryLevel = PNone,
      sr_uploadQueue = [example_upload_item], sr_failedUploadQueue = []\<rparr>"

definition example_stop :: StopRecordingResponse where
  "example_stop =
     \<lparr>srr_deviceId = PStr ''Mountain-A1B2C3D4'', srr_status = PStr ''recording_stopped'',
      srr_timestamp = PFloat 1729000000.5, srr_fileName = PStr ''clip_001.mp4'',
      srr_fileSize = PInt 524288\<rparr>"

definition example_error :: ErrorResponse where
  "example_error =
     \<lparr>er_deviceId = PStr ''Mountain-A1B2C3D4'', er_status = PStr ''file_not_found'',
      er_timestamp = PFloat 1729000000.5, er_message = PStr ''no such file''\<rparr>"

definition example_file :: FileResponse where
  "example_file =
     \<lparr>fr_deviceId = PStr ''Mountain-A1B2C3D4'', fr_fileName = PStr ''clip_001.mp4'',
      fr_fileSize = PInt 524288, fr_status = PStr ''ready''\<rparr>"

definition example_list :: ListFilesResponse where
  "example_list =
     \<lparr>lfr_deviceId = PStr ''Mountain-A1B2C3D4'', lfr_status = PStr ''ready'',
      lfr_timestamp = PFloat 1729000000.5,
      lfr_files =
        [\<lparr>fm_fileName = PStr ''clip_001.mp4'', fm_fileSize = PInt 524288,
          fm_creationDate = PFloat 1728999000.25,
          fm_modificationDate = PFloat 1728999900.75\<rparr>]\<rparr>"

section \<open>Properties of \<open>status.py\<close> and \<open>constants.py\<close>\<close>

subsection \<open>Lower-casing\<close>

lemma lower_char_idem: "lower_char (lower_char c) = lower_char c"
  by (simp add: lower_char_def)

lemma lower_idem: "lower (lower s) = lower s"
  by (simp add: lower_def lower_char_idem)

lemma success_statuses_eq:
  "success_statuses =
     {''ready'', ''recording'', ''scheduled_recording_accepted'', ''command_received'',
      ''recording_stopped'', ''stopping'', ''uploading'', ''upload_queued'',
      ''upload_completed''}"
  by (simp add: success_statuses_def)

lemma error_statuses_eq:
  "error_statuses = {''error'', ''time_not_synchronized'', ''file_not_found'', ''upload_failed''}"
  by (simp add: error_statuses_def)

lemma lower_DeviceStatus_value: "lower (DeviceStatus_value v) = DeviceStatus_value v"
  by (cases v) (simp_all add: lower_def lower_char_def)

lemma DeviceStatus_value_snake_case: "lowercase_snake_case (DeviceStatus_value v)"
  by (cases v) (simp_all add: lowercase_snake_case_def)

subsection \<open>Classification of status strings\<close>

text \<open>
  Claim C3: for every string \<open>s\<close>, \<open>is_success s\<close> holds exactly when the lower-cased
  \<open>s\<close> is one of the nine success tokens, and \<open>is_error s\<close> exactly when it is one of
  the four error tokens; both functions give the same answer on \<open>s\<close> and on the
  lower-cased \<open>s\<close>; and the value of every member of \<open>DeviceStatus\<close> is a lowercase
  snake\_case token (which lower-casing leaves unchanged).
\<close>

theorem is_success_is_error_closed_sets:
  "(is_success s \<longleftrightarrow>
      lower s \<in> {''ready'', ''recording'', ''scheduled_recording_accepted'',
                 ''command_received'', ''recording_stopped'', ''stopping'', ''uploading'',
                 ''upload_queued'', ''upload_completed''}) \<and>
   (is_error s \<longleftrightarrow>
      lower s \<in> {''error'', ''time_not_synchronized'', ''file_not_found'',
                 ''upload_failed''}) \<and>
   is_success s = is_success (lower s) \<and>
   is_error s = is_error (lower s) \<and>
   lowercase_snake_case (DeviceStatus_value v) \<and>
   lower (DeviceStatus_value v) = DeviceStatus_value v"
  unfolding is_success_def is_error_def lower_idem
  by (simp only: success_statuses_eq error_statuses_eq DeviceStatus_value_snake_case
        lower_DeviceStatus_value simp_thms)

theorem is_success_is_error_closed_sets_witness:
  "is_success ''Upload_QUEUED'' \<and> lower ''Upload_QUEUED'' = ''upload_queued'' \<and>
   \<not> is_error ''Upload_QUEUED'' \<and>
   is_error ''FILE_NOT_FOUND'' \<and> \<not> is_success ''FILE_NOT_FOUND'' \<and>
   \<not> is_success ''paused'' \<and> \<not> is_error ''paused'' \<and>
   lowercase_snake_case (DeviceStatus_value TIME_NOT_SYNCHRONIZED)"
  using is_success_is_error_closed_sets [of "''Upload_QUEUED''" TIME_NOT_SYNCHRONIZED]
    is_success_is_error_closed_sets [of "''FILE_NOT_FOUND''" TIME_NOT_SYNCHRONIZED]
    is_success_is_error_closed_sets [of "''paused''" TIME_NOT_SYNCHRONIZED]
  by (simp add: lower_def lower_char_def)

text \<open>
  Claim C4: the two classification functions partition the enumeration: every member of
  \<open>DeviceStatus\<close> is classified by at least one of \<open>is_success\<close> and \<open>is_error\<close>,
  and by no more than one.
\<close>

theorem DeviceStatus_partition:
  "(is_success (DeviceStatus_value v) \<or> is_error (DeviceStatus_value v)) \<and>
   \<not> (is_success (DeviceStatus_value v) \<and> is_error (DeviceStatus_value v))"
  unfolding is_success_def is_error_def lower_DeviceStatus_value
    success_statuses_eq error_statuses_eq
  by (cases v) simp_all

theorem DeviceStatus_partition_witness:
  "is_success (DeviceStatus_value STOPPING) \<and> \<not> is_error (DeviceStatus_value STOPPING) \<and>
   is_error (DeviceStatus_value UPLOAD_FAILED) \<and>
   \<not> is_success (DeviceStatus_value UPLOAD_FAILED)"
  using DeviceStatus_partition [of STOPPING] DeviceStatus_partition [of UPLOAD_FAILED]
  by (simp add: is_success_def is_error_def lower_def lower_char_def success_statuses_def)

subsection \<open>The legacy constant \<open>SUCCESS_STATUSES\<close>\<close>

lemma success_statuses_split:
  "success_statuses =
     SUCCESS_STATUSES \<union> {''uploading'', ''upload_queued'', ''upload_completed''}"
  unfolding success_statuses_eq SUCCESS_STATUSES_def by (simp add: insert_commute)

lemma upload_tokens_not_legacy:
  "u \<in> {''uploading'', ''upload_queued'', ''upload_completed''} \<Longrightarrow> u \<notin> SUCCESS_STATUSES"
  by (auto simp add: SUCCESS_STATUSES_def)

lemma lower_SUCCESS_STATUSES: "s \<in> SUCCESS_STATUSES \<Longrightarrow> lower s = s"
  by (auto simp add: SUCCESS_STATUSES_def lower_def lower_char_def)

lemma lower_upload_tokens:
  "lower ''uploading'' = ''uploading''"
  "lower ''upload_queued'' = ''upload_queued''"
  "lower ''upload_completed'' = ''upload_completed''"
  using lower_DeviceStatus_value [of UPLOADING] lower_DeviceStatus_value [of UPLOAD_QUEUED]
    lower_DeviceStatus_value [of UPLOAD_COMPLETED]
  by simp_all

lemma SUCCESS_STATUSES_is_success: "s \<in> SUCCESS_STATUSES \<Longrightarrow> is_success s"
  unfolding is_success_def success_statuses_split
  by (simp add: lower_SUCCESS_STATUSES)

lemma upload_tokens_is_success:
  "is_success ''uploading''" "is_success ''upload_queued''" "is_success ''upload_completed''"
  unfolding is_success_def success_statuses_split lower_upload_tokens
  by blast+

lemma success_statuses_diff:
  "success_statuses - SUCCESS_STATUSES =
     {''uploading'', ''upload_queued'', ''upload_completed''}"
  unfolding success_statuses_split using upload_tokens_not_legacy by blast

lemma SUCCESS_STATUSES_psubset: "SUCCESS_STATUSES \<subset> success_statuses"
proof -
  have "''uploading'' \<in> success_statuses"
    unfolding success_statuses_split by blast
  moreover have "''uploading'' \<notin> SUCCESS_STATUSES"
    using upload_tokens_not_legacy by blast
  moreover have "SUCCESS_STATUSES \<subseteq> success_statuses"
    unfolding success_statuses_split by blast
  ultimately show ?thesis by blast
qed

lemma legacy_differs_on_enum:
  "(DeviceStatus_value v \<in> SUCCESS_STATUSES) \<noteq> is_success (DeviceStatus_value v)
     \<longleftrightarrow> v \<in> {UPLOADING, UPLOAD_QUEUED, UPLOAD_COMPLETED}"
  unfolding is_success_def lower_DeviceStatus_value success_statuses_eq SUCCESS_STATUSES_def
  by (cases v) simp_all

lemma legacy_differs_on_strings:
  "(t \<in> SUCCESS_STATUSES) \<noteq> is_success t
     \<longleftrightarrow> lower t \<in> {''uploading'', ''upload_queued'', ''upload_completed''} \<or>
         (lower t \<in> SUCCESS_STATUSES \<and> t \<noteq> lower t)"
proof (cases "t \<in> SUCCESS_STATUSES")
  case True
  then have eq: "lower t = t" by (rule lower_SUCCESS_STATUSES)
  have "is_success t" using True by (rule SUCCESS_STATUSES_is_success)
  moreover have "lower t \<notin> {''uploading'', ''upload_queued'', ''upload_completed''}"
    unfolding eq using True upload_tokens_not_legacy by blast
  ultimately show ?thesis using True by (simp only: eq simp_thms)
next
  case False
  then have "lower t \<in> SUCCESS_STATUSES \<Longrightarrow> t \<noteq> lower t" by auto
  with False show ?thesis
    unfolding is_success_def success_statuses_split by blast
qed

text \<open>
  Claim C10: \<open>SUCCESS_STATUSES\<close> is a strict subset of the success set of
  \<open>is_success\<close>: each of its members satisfies \<open>is_success\<close>, while
  \<open>uploading\<close>, \<open>upload_queued\<close> and \<open>upload_completed\<close> satisfy \<open>is_success\<close>
  and are not members. The two sets differ by exactly these three tokens, and on the
  members of \<open>DeviceStatus\<close> the two classifications disagree exactly on \<open>UPLOADING\<close>,
  \<open>UPLOAD_QUEUED\<close> and \<open>UPLOAD_COMPLETED\<close>. On an arbitrary string the two disagree
  exactly when its lower-casing is one of the three upload tokens, or is a member of
  \<open>SUCCESS_STATUSES\<close> that the string itself (not being lowercase) is not.
\<close>

theorem SUCCESS_STATUSES_strict_subset:
  "(\<forall>s \<in> SUCCESS_STATUSES. is_success s) \<and>
   is_success ''uploading'' \<and> ''uploading'' \<notin> SUCCESS_STATUSES \<and>
   is_success ''upload_queued'' \<and> ''upload_queued'' \<notin> SUCCESS_STATUSES \<and>
   is_success ''upload_completed'' \<and> ''upload_completed'' \<notin> SUCCESS_STATUSES \<and>
   SUCCESS_STATUSES \<subset> success_statuses \<and>
   success_statuses - SUCCESS_STATUSES = {''uploading'', ''upload_queued'', ''upload_completed''} \<and>
   ((DeviceStatus_value v \<in> SUCCESS_STATUSES) \<noteq> is_success (DeviceStatus_value v)
      \<longleftrightarrow> v \<in> {UPLOADING, UPLOAD_QUEUED, UPLOAD_COMPLETED}) \<and>
   ((t \<in> SUCCESS_STATUSES) \<noteq> is_success t
      \<longleftrightarrow> lower t \<in> {''uploading'', ''upload_queued'', ''upload_completed''} \<or>
          (lower t \<in> SUCCESS_STATUSES \<and> t \<noteq> lower t))"
proof -
  have members: "\<forall>s \<in> SUCCESS_STATUSES. is_success s"
    using SUCCESS_STATUSES_is_success by blast
  have a: "''uploading'' \<notin> SUCCESS_STATUSES"
    by (rule upload_tokens_not_legacy) blast
  have b: "''upload_queued'' \<notin> SUCCESS_STATUSES"
    by (rule upload_tokens_not_legacy) blast
  have c: "''upload_completed'' \<notin> SUCCESS_STATUSES"
    by (rule upload_tokens_not_legacy) blast
  show ?thesis
    by (intro conjI members upload_tokens_is_success a b c SUCCESS_STATUSES_psubset
        success_statuses_diff legacy_differs_on_enum legacy_differs_on_strings)
qed

theorem SUCCESS_STATUSES_strict_subset_witness:
  "''stopping'' \<in> SUCCESS_STATUSES \<and> is_success ''stopping'' \<and>
   DeviceStatus_value UPLOAD_QUEUED \<notin> SUCCESS_STATUSES \<and>
   is_success (DeviceStatus_value UPLOAD_QUEUED) \<and>
   ''READY'' \<notin> SUCCESS_STATUSES \<and> is_success ''READY''"
proof -
  have m: "''stopping'' \<in> SUCCESS_STATUSES"
    by (simp add: SUCCESS_STATUSES_def)
  have l: "lower ''READY'' = ''ready''"
    by (simp add: lower_def lower_char_def)
  have r: "''ready'' \<in> SUCCESS_STATUSES" "''READY'' \<notin> SUCCESS_STATUSES"
    by (simp_all add: SUCCESS_STATUSES_def)
  from SUCCESS_STATUSES_strict_subset [of UPLOAD_QUEUED "''READY''"] m l r show ?thesis
    by simp
qed

subsection \<open>Protocol constants\<close>

text \<open>
  Claim C7: the protocol constants have the values the specification fixes:
  \<open>MAX_ACCEPTABLE_RTT\<close> is 0.5 seconds, \<open>TCP_PORT\<close> is 8080, \<open>SERVICE_TYPE\<close> is
  \<open>_multicam._tcp.local.\<close>, \<open>DOWNLOAD_CHUNK_SIZE\<close> is 8192 bytes, \<open>COMMAND_TIMEOUT\<close>
  is 60 seconds and \<open>DOWNLOAD_STALL_TIMEOUT\<close> is 600 seconds, that is ten minutes.
\<close>

theorem protocol_constants:
  "MAX_ACCEPTABLE_RTT = 1 / 2 \<and>
   TCP_PORT = 8080 \<and>
   SERVICE_TYPE = ''_multicam._tcp.local.'' \<and>
   DOWNLOAD_CHUNK_SIZE = 8192 \<and>
   COMMAND_TIMEOUT = 60 \<and>
   DOWNLOAD_STALL_TIMEOUT = 600 \<and>
   DOWNLOAD_STALL_TIMEOUT = 10 * 60"
  by (simp add: MAX_ACCEPTABLE_RTT_def TCP_PORT_def SERVICE_TYPE_def DOWNLOAD_CHUNK_SIZE_def
      COMMAND_TIMEOUT_def DOWNLOAD_STALL_TIMEOUT_def)

section \<open>Properties of \<open>commands.py\<close>\<close>

subsection \<open>Raising and sequencing\<close>

lemma bind_result_Inl [simp]: "bind_result (Inl e) f = Inl e"
  by (simp add: bind_result_def)

lemma bind_result_Inr [simp]: "bind_result (Inr x) f = f x"
  by (simp add: bind_result_def)

lemma CommandType_call_value: "CommandType_call (PStr (CommandType_value c)) = Inr c"
  by (cases c) (simp_all add: CommandType_members_def)

lemma map_result_inverse:
  assumes "\<And>x. f (g x) = Inr x"
  shows "map_result f (map g xs) = Inr xs"
  by (induction xs) (simp_all add: assms)

lemma UploadItem_from_dict_asdict: "UploadItem_from_dict (UploadItem_asdict item) = Inr item"
  by (simp add: UploadItem_from_dict_def UploadItem_asdict_def)

lemma FileMetadata_from_dict_asdict: "FileMetadata_from_dict (FileMetadata_asdict f) = Inr f"
  by (simp add: FileMetadata_from_dict_def FileMetadata_asdict_def)

lemma upload_items_of_uploadQueue:
  "upload_items_of (StatusResponse_to_json_data self) ''uploadQueue'' = Inr (sr_uploadQueue self)"
  by (simp add: upload_items_of_def StatusResponse_to_json_data_def map_result_inverse
      UploadItem_from_dict_asdict)

lemma upload_items_of_failedUploadQueue:
  "upload_items_of (StatusResponse_to_json_data self) ''failedUploadQueue'' =
     Inr (sr_failedUploadQueue self)"
  by (simp add: upload_items_of_def StatusResponse_to_json_data_def map_result_inverse
      UploadItem_from_dict_asdict)

lemma CommandMessage_roundtrip:
  assumes "loads (dumps (CommandMessage_to_json_data x)) = Inr (CommandMessage_to_json_data x)"
  shows "CommandMessage_from_json loads (CommandMessage_to_json dumps x) = Inr x"
  unfolding CommandMessage_from_json_def CommandMessage_to_json_def assms bind_result_Inr
  by (simp add: CommandMessage_to_json_data_def CommandType_call_value
      del: CommandType_call.simps)

lemma StatusResponse_roundtrip:
  assumes "loads (dumps (StatusResponse_to_json_data x)) = Inr (StatusResponse_to_json_data x)"
  shows "StatusResponse_from_json loads (StatusResponse_to_json dumps x) = Inr x"
  unfolding StatusResponse_from_json_def StatusResponse_to_json_def assms bind_result_Inr
    upload_items_of_uploadQueue upload_items_of_failedUploadQueue
  by (simp add: StatusResponse_to_json_data_def)

lemma StopRecordingResponse_roundtrip:
  assumes "loads (dumps (StopRecordingResponse_asdict x)) = Inr (StopRecordingResponse_asdict x)"
  shows "StopRecordingResponse_from_json loads (StopRecordingResponse_to_json dumps x) = Inr x"
  unfolding StopRecordingResponse_from_json_def StopRecordingResponse_to_json_def assms
    bind_result_Inr
  by (simp add: StopRecordingResponse_asdict_def)

lemma ErrorResponse_roundtrip:
  assumes "loads (dumps (ErrorResponse_asdict x)) = Inr (ErrorResponse_asdict x)"
  shows "ErrorResponse_from_json loads (ErrorResponse_to_json dumps x) = Inr x"
  unfolding ErrorResponse_from_json_def ErrorResponse_to_json_def assms bind_result_Inr
  by (simp add: ErrorResponse_asdict_def)

lemma FileResponse_roundtrip:
  assumes "loads (dumps (FileResponse_asdict x)) = Inr (FileResponse_asdict x)"
  shows "FileResponse_from_json loads (FileResponse_to_json dumps x) = Inr x"
  unfolding FileResponse_from_json_def FileResponse_to_json_def assms bind_result_Inr
  by (simp add: FileResponse_asdict_def)

lemma ListFilesResponse_roundtrip:
  assumes "loads (dumps (ListFilesResponse_to_json_data x)) = Inr (ListFilesResponse_to_json_data x)"
  shows "ListFilesResponse_from_json loads (ListFilesResponse_to_json dumps x) = Inr x"
  unfolding ListFilesResponse_from_json_def ListFilesResponse_to_json_def assms bind_result_Inr
  by (simp add: ListFilesResponse_to_json_data_def map_result_inverse
      FileMetadata_from_dict_asdict)

subsection \<open>Serialising and deserialising\<close>

text \<open>
  Claim C1: for each of the six message classes (\<open>CommandMessage\<close>,
  \<open>StatusResponse\<close>, \<open>StopRecordingResponse\<close>, \<open>ErrorResponse\<close>,
  \<open>FileResponse\<close>, \<open>ListFilesResponse\<close>) and every instance \<open>x\<close>, with optional
  fields possibly \<open>None\<close> and lists possibly empty, \<open>from_json (to_json x)\<close> returns
  \<open>x\<close>, whenever \<open>json.loads\<close> gives back the dict that \<open>json.dumps\<close> was
  handed for \<open>x\<close>.
\<close>

theorem from_json_to_json:
  "(loads (dumps (CommandMessage_to_json_data c)) = Inr (CommandMessage_to_json_data c) \<longrightarrow>
      CommandMessage_from_json loads (CommandMessage_to_json dumps c) = Inr c) \<and>
   (loads (dumps (StatusResponse_to_json_data s)) = Inr (StatusResponse_to_json_data s) \<longrightarrow>
      StatusResponse_from_json loads (StatusResponse_to_json dumps s) = Inr s) \<and>
   (loads (dumps (StopRecordingResponse_asdict p)) = Inr (StopRecordingResponse_asdict p) \<longrightarrow>
      StopRecordingResponse_from_json loads (StopRecordingResponse_to_json dumps p) = Inr p) \<and>
   (loads (dumps (ErrorResponse_asdict e)) = Inr (ErrorResponse_asdict e) \<longrightarrow>
      ErrorResponse_from_json loads (ErrorResponse_to_json dumps e) = Inr e) \<and>
   (loads (dumps (FileResponse_asdict f)) = Inr (FileResponse_asdict f) \<longrightarrow>
      FileResponse_from_json loads (FileResponse_to_json dumps f) = Inr f) \<and>
   (loads (dumps (ListFilesResponse_to_json_data l)) = Inr (ListFilesResponse_to_json_data l) \<longrightarrow>
      ListFilesResponse_from_json loads (ListFilesResponse_to_json dumps l) = Inr l)"
  by (intro conjI impI CommandMessage_roundtrip StatusResponse_roundtrip
      StopRecordingResponse_roundtrip ErrorResponse_roundtrip FileResponse_roundtrip
      ListFilesResponse_roundtrip)

lemma example_documents:
  "loads_example (dumps_example (CommandMessage_to_json_data example_command)) =
     Inr (CommandMessage_to_json_data example_command)"
  "loads_example (dumps_example (StatusResponse_to_json_data example_status)) =
     Inr (StatusResponse_to_json_data example_status)"
  "loads_example (dumps_example (StopRecordingResponse_asdict example_stop)) =
     Inr (StopRecordingResponse_asdict example_stop)"
  "loads_example (dumps_example (ErrorResponse_asdict example_error)) =
     Inr (ErrorResponse_asdict example_error)"
  "loads_example (dumps_example (FileResponse_asdict example_file)) =
     Inr (FileResponse_asdict example_file)"
  "loads_example (dumps_example (ListFilesResponse_to_json_data example_list)) =
     Inr (ListFilesResponse_to_json_data example_list)"
  by (simp_all add: loads_example_def dumps_example_def json_examples_def
      CommandMessage_to_json_data_def example_command_def upload_to_cloud_def
      StatusResponse_to_json_data_def example_status_def UploadItem_asdict_def
      example_upload_item_def StopRecordingResponse_asdict_def example_stop_def
      ErrorResponse_asdict_def example_error_def FileResponse_asdict_def example_file_def
      ListFilesResponse_to_json_data_def example_list_def FileMetadata_asdict_def)

theorem from_json_to_json_witness:
  "CommandMessage_from_json loads_example
     (CommandMessage_to_json dumps_example example_command) = Inr example_command \<and>
   StatusResponse_from_json loads_example
     (StatusResponse_to_json dumps_example example_status) = Inr example_status \<and>
   StopRecordingResponse_from_json loads_example
     (StopRecordingResponse_to_json dumps_example example_stop) = Inr example_stop \<and>
   ErrorResponse_from_json loads_example
     (ErrorResponse_to_json dumps_example example_error) = Inr example_error \<and>
   FileResponse_from_json loads_example
     (FileResponse_to_json dumps_example example_file) = Inr example_file \<and>
   ListFilesResponse_from_json loads_example
     (ListFilesResponse_to_json dumps_example example_list) = Inr example_list"
  using from_json_to_json [of loads_example dumps_example example_command example_status
      example_stop example_error example_file example_list]
  by (simp only: example_documents simp_thms)

subsection \<open>Decoding a command that is not well formed\<close>

lemma CommandType_members_complete: "set CommandType_members = UNIV"
proof -
  have "c \<in> set CommandType_members" for c
    by (cases c) (simp_all add: CommandType_members_def)
  then show ?thesis by blast
qed

lemma CommandType_call_unknown:
  assumes "name \<notin> CommandType_value ` set CommandType_members"
  shows "CommandType_call (PStr name) = Inl ValueError"
proof -
  have "find (\<lambda>m. CommandType_value m = name) CommandType_members = None"
    using assms by (auto simp add: find_None_iff)
  then show ?thesis by simp
qed

lemma CommandMessage_from_json_malformed:
  assumes "loads s = Inl e"
  shows "CommandMessage_from_json loads s = Inl e"
  by (simp add: CommandMessage_from_json_def assms)

lemma CommandMessage_from_json_no_command:
  assumes "loads s = Inr (PDict kvs)" and "map_of kvs ''command'' = None"
  shows "CommandMessage_from_json loads s = Inl (KeyError ''command'')"
  by (simp add: CommandMessage_from_json_def assms)

lemma CommandMessage_from_json_no_timestamp:
  assumes "loads s = Inr (PDict kvs)"
    and "map_of kvs ''command'' = Some (PStr (CommandType_value c))"
    and "map_of kvs ''timestamp'' = None"
  shows "CommandMessage_from_json loads s = Inl (KeyError ''timestamp'')"
  by (simp add: CommandMessage_from_json_def assms CommandType_call_value
      del: CommandType_call.simps)

lemma CommandMessage_from_json_unknown_command:
  assumes "loads s = Inr (PDict kvs)"
    and "map_of kvs ''command'' = Some (PStr name)"
    and "name \<notin> CommandType_value ` set CommandType_members"
  shows "CommandMessage_from_json loads s = Inl ValueError"
  by (simp add: CommandMessage_from_json_def assms CommandType_call_unknown
      del: CommandType_call.simps)

lemma CommandMessage_from_json_needs_timestamp:
  assumes "loads s = Inr (PDict kvs)" and "map_of kvs ''timestamp'' = None"
  shows "CommandMessage_from_json loads s \<noteq> Inr m"
proof (cases "map_of kvs ''command''")
  case None
  with assms show ?thesis
    by (simp add: CommandMessage_from_json_def)
next
  case (Some v)
  show ?thesis
  proof (cases "CommandType_call v")
    case (Inl err)
    with assms Some show ?thesis
      by (simp add: CommandMessage_from_json_def)
  next
    case (Inr cmd)
    with assms Some show ?thesis
      by (simp add: CommandMessage_from_json_def)
  qed
qed

text \<open>
  Claim C2: decoding a \<open>CommandMessage\<close> fails when the input is not well-formed JSON
  (the exception of \<open>json.loads\<close> is passed on), when the JSON object has no
  \<open>command\<close> or no \<open>timestamp\<close> (\<open>KeyError\<close>), and when the \<open>command\<close> string is
  the value of no member of \<open>CommandType\<close> (\<open>ValueError\<close>); in none of these cases
  does decoding return a \<open>CommandMessage\<close>.
\<close>

theorem CommandMessage_from_json_fails:
  "(loads s = Inl e \<longrightarrow> CommandMessage_from_json loads s = Inl e) \<and>
   (loads s = Inr (PDict kvs) \<and> map_of kvs ''command'' = None \<longrightarrow>
      CommandMessage_from_json loads s = Inl (KeyError ''command'')) \<and>
   (loads s = Inr (PDict kvs) \<and> map_of kvs ''command'' = Some (PStr (CommandType_value c)) \<and>
    map_of kvs ''timestamp'' = None \<longrightarrow>
      CommandMessage_from_json loads s = Inl (KeyError ''timestamp'')) \<and>
   (loads s = Inr (PDict kvs) \<and> map_of kvs ''command'' = Some (PStr name) \<and>
    name \<notin> CommandType_value ` set CommandType_members \<longrightarrow>
      CommandMessage_from_json loads s = Inl ValueError) \<and>
   ((\<exists>err. loads s = Inl err) \<or>
    loads s = Inr (PDict kvs) \<and>
      (map_of kvs ''command'' = None \<or> map_of kvs ''timestamp'' = None \<or>
       (\<exists>n. map_of kvs ''command'' = Some (PStr n) \<and>
            n \<notin> CommandType_value ` set CommandType_members)) \<longrightarrow>
      (\<forall>m. CommandMessage_from_json loads s \<noteq> Inr m))"
proof (intro conjI impI allI)
  show "CommandMessage_from_json loads s = Inl e" if "loads s = Inl e"
    using that by (rule CommandMessage_from_json_malformed)
  show "CommandMessage_from_json loads s = Inl (KeyError ''command'')"
    if "loads s = Inr (PDict kvs) \<and> map_of kvs ''command'' = None"
    using that by (elim conjE) (rule CommandMessage_from_json_no_command)
  show "CommandMessage_from_json loads s = Inl (KeyError ''timestamp'')"
    if "loads s = Inr (PDict kvs) \<and>
        map_of kvs ''command'' = Some (PStr (CommandType_value c)) \<and>
        map_of kvs ''timestamp'' = None"
    using that by (elim conjE) (rule CommandMessage_from_json_no_timestamp)
  show "CommandMessage_from_json loads s = Inl ValueError"
    if "loads s = Inr (PDict kvs) \<and> map_of kvs ''command'' = Some (PStr name) \<and>
        name \<notin> CommandType_value ` set CommandType_members"
    using that by (elim conjE) (rule CommandMessage_from_json_unknown_command)
  show "CommandMessage_from_json loads s \<noteq> Inr m"
    if "(\<exists>err. loads s = Inl err) \<or>
        loads s = Inr (PDict kvs) \<and>
          (map_of kvs ''command'' = None \<or> map_of kvs ''timestamp'' = None \<or>
           (\<exists>n. map_of kvs ''command'' = Some (PStr n) \<and>
                n \<notin> CommandType_value ` set CommandType_members))"
    for m
    using that
  proof (elim disjE conjE exE)
    fix err
    assume "loads s = Inl err"
    then show ?thesis
      by (simp add: CommandMessage_from_json_malformed)
  next
    assume "loads s = Inr (PDict kvs)" and "map_of kvs ''command'' = None"
    then show ?thesis
      by (simp add: CommandMessage_from_json_no_command)
  next
    assume "loads s = Inr (PDict kvs)" and "map_of kvs ''timestamp'' = None"
    then show ?thesis
      by (rule CommandMessage_from_json_needs_timestamp)
  next
    fix n
    assume "loads s = Inr (PDict kvs)" and "map_of kvs ''command'' = Some (PStr n)"
      and "n \<notin> CommandType_value ` set CommandType_members"
    then show ?thesis
      by (simp add: CommandMessage_from_json_unknown_command)
  qed
qed

lemma example_bad_documents:
  \<open>loads_example ''{"command": '' = Inl JSONDecodeError\<close>
  \<open>loads_example ''{"timestamp": 1729000000.5}'' =
     Inr (PDict [(''timestamp'', PFloat 1729000000.5)])\<close>
  \<open>loads_example ''{"command": "HEARTBEAT"}'' =
     Inr (PDict [(''command'', PStr (CommandType_value HEARTBEAT))])\<close>
  \<open>loads_example ''{"command": "REBOOT", "timestamp": 1729000000.5}'' =
     Inr (PDict [(''command'', PStr ''REBOOT''), (''timestamp'', PFloat 1729000000.5)])\<close>
  by (simp_all add: loads_example_def json_examples_def)

lemma REBOOT_unknown: "''REBOOT'' \<notin> CommandType_value ` set CommandType_members"
  by (simp add: CommandType_members_def)

theorem CommandMessage_from_json_fails_witness:
  \<open>CommandMessage_from_json loads_example ''{"command": '' = Inl JSONDecodeError \<and>
   CommandMessage_from_json loads_example ''{"timestamp": 1729000000.5}'' =
     Inl (KeyError ''command'') \<and>
   CommandMessage_from_json loads_example ''{"command": "HEARTBEAT"}'' =
     Inl (KeyError ''timestamp'') \<and>
   CommandMessage_from_json loads_example
     ''{"command": "REBOOT", "timestamp": 1729000000.5}'' = Inl ValueError\<close>
  using
    CommandMessage_from_json_fails [of loads_example \<open>''{"command": ''\<close> JSONDecodeError]
    CommandMessage_from_json_fails [of loads_example \<open>''{"timestamp": 1729000000.5}''\<close> _
      "[(''timestamp'', PFloat 1729000000.5)]"]
    CommandMessage_from_json_fails [of loads_example \<open>''{"command": "HEARTBEAT"}''\<close> _
      "[(''command'', PStr (CommandType_value HEARTBEAT))]" HEARTBEAT]
    CommandMessage_from_json_fails [of loads_example
      \<open>''{"command": "REBOOT", "timestamp": 1729000000.5}''\<close> _
      "[(''command'', PStr ''REBOOT''), (''timestamp'', PFloat 1729000000.5)]" _ "''REBOOT''"]
    REBOOT_unknown
  by (simp add: example_bad_documents)

subsection \<open>Required fields of a command\<close>

lemma CommandMessage_from_json_fields:
  assumes "loads s = Inr (PDict kvs)" and "CommandMessage_from_json loads s = Inr m"
  shows "cm_fileName m = (case map_of kvs ''fileName'' of Some v \<Rightarrow> v | None \<Rightarrow> PNone)"
    and "cm_uploadUrl m = (case map_of kvs ''uploadUrl'' of Some v \<Rightarrow> v | None \<Rightarrow> PNone)"
    and "cm_deviceId m =
           (case map_of kvs ''deviceId'' of Some v \<Rightarrow> v | None \<Rightarrow> PStr ''controller'')"
proof -
  obtain c where c: "map_of kvs ''command'' = Some c"
    using assms by (cases "map_of kvs ''command''") (simp_all add: CommandMessage_from_json_def)
  obtain cmd where cmd: "CommandType_call c = Inr cmd"
    using assms c by (cases "CommandType_call c") (simp_all add: CommandMessage_from_json_def)
  obtain ts where ts: "map_of kvs ''timestamp'' = Some ts"
    using assms c cmd
    by (cases "map_of kvs ''timestamp''") (simp_all add: CommandMessage_from_json_def)
  have m: "m = \<lparr>cm_command = cmd, cm_timestamp = ts,
       cm_deviceId =
         (case map_of kvs ''deviceId'' of Some v \<Rightarrow> v | None \<Rightarrow> PStr ''controller''),
       cm_fileName = (case map_of kvs ''fileName'' of Some v \<Rightarrow> v | None \<Rightarrow> PNone),
       cm_uploadUrl = (case map_of kvs ''uploadUrl'' of Some v \<Rightarrow> v | None \<Rightarrow> PNone)\<rparr>"
    using assms c cmd ts by (simp add: CommandMessage_from_json_def)
  show "cm_fileName m = (case map_of kvs ''fileName'' of Some v \<Rightarrow> v | None \<Rightarrow> PNone)"
    by (simp add: m)
  show "cm_uploadUrl m = (case map_of kvs ''uploadUrl'' of Some v \<Rightarrow> v | None \<Rightarrow> PNone)"
    by (simp add: m)
  show "cm_deviceId m =
          (case map_of kvs ''deviceId'' of Some v \<Rightarrow> v | None \<Rightarrow> PStr ''controller'')"
    by (simp add: m)
qed

text \<open>
  Claim C5, as stated, fails: \<open>from_json\<close> decodes a \<open>GET_VIDEO\<close> command that has
  no \<open>fileName\<close> into a message whose \<open>fileName\<close> is \<open>None\<close>.
\<close>

theorem required_fields_counterexample:
  \<open>CommandMessage_from_json loads_example
     ''{"command": "GET_VIDEO", "timestamp": 1729000000.5}'' =
     Inr \<lparr>cm_command = GET_VIDEO, cm_timestamp = PFloat 1729000000.5,
          cm_deviceId = PStr ''controller'', cm_fileName = PNone, cm_uploadUrl = PNone\<rparr> \<and>
   \<not> required_fields_present
        \<lparr>cm_command = GET_VIDEO, cm_timestamp = PFloat 1729000000.5,
         cm_deviceId = PStr ''controller'', cm_fileName = PNone, cm_uploadUrl = PNone\<rparr>\<close>
  by (simp add: CommandMessage_from_json_def loads_example_def json_examples_def
      CommandType_members_def required_fields_present_def)

text \<open>
  Claim C5, amended: every message built by a class-method constructor has its required
  fields. \<open>get_video(file_name)\<close> builds the \<open>GET_VIDEO\<close> command whose
  \<open>fileName\<close> is \<open>file_name\<close>, and \<open>upload_to_cloud(file_name, upload_url)\<close>
  the \<open>UPLOAD_TO_CLOUD\<close> command whose \<open>fileName\<close> is \<open>file_name\<close> and whose
  \<open>uploadUrl\<close> is \<open>upload_url\<close>, so both fields are present when the arguments
  are not \<open>None\<close> (both parameters are annotated \<open>str\<close>); the other five
  constructors build \<open>START_RECORDING\<close>, \<open>STOP_RECORDING\<close>, \<open>DEVICE_STATUS\<close>,
  \<open>HEARTBEAT\<close> and \<open>LIST_FILES\<close>, which require neither field, and leave both
  \<open>None\<close>. \<open>from_json\<close> checks nothing: the decoded message has the \<open>fileName\<close>
  and the \<open>uploadUrl\<close> of the JSON object, and \<open>None\<close> for a key that is absent, so
  it has its required fields exactly when the object supplies them.
\<close>

theorem required_fields_of_constructors:
  "get_video now file_name device_id =
     \<lparr>cm_command = GET_VIDEO, cm_timestamp = PFloat now, cm_deviceId = device_id,
      cm_fileName = file_name, cm_uploadUrl = PNone\<rparr> \<and>
   upload_to_cloud now file_name upload_url device_id =
     \<lparr>cm_command = UPLOAD_TO_CLOUD, cm_timestamp = PFloat now, cm_deviceId = device_id,
      cm_fileName = file_name, cm_uploadUrl = upload_url\<rparr> \<and>
   cm_command (start_recording now ts device_id) = START_RECORDING \<and>
   cm_fileName (start_recording now ts device_id) = PNone \<and>
   cm_uploadUrl (start_recording now ts device_id) = PNone \<and>
   stop_recording now device_id =
     \<lparr>cm_command = STOP_RECORDING, cm_timestamp = PFloat now, cm_deviceId = device_id,
      cm_fileName = PNone, cm_uploadUrl = PNone\<rparr> \<and>
   device_status now device_id =
     \<lparr>cm_command = DEVICE_STATUS, cm_timestamp = PFloat now, cm_deviceId = device_id,
      cm_fileName = PNone, cm_uploadUrl = PNone\<rparr> \<and>
   heartbeat now device_id =
     \<lparr>cm_command = HEARTBEAT, cm_timestamp = PFloat now, cm_deviceId = device_id,
      cm_fileName = PNone, cm_uploadUrl = PNone\<rparr> \<and>
   list_files now device_id =
     \<lparr>cm_command = LIST_FILES, cm_timestamp = PFloat now, cm_deviceId = device_id,
      cm_fileName = PNone, cm_uploadUrl = PNone\<rparr> \<and>
   (file_name \<noteq> PNone \<longrightarrow> required_fields_present (get_video now file_name device_id)) \<and>
   (file_name \<noteq> PNone \<and> upload_url \<noteq> PNone \<longrightarrow>
      required_fields_present (upload_to_cloud now file_name upload_url device_id)) \<and>
   required_fields_present (start_recording now ts device_id) \<and>
   required_fields_present (stop_recording now device_id) \<and>
   required_fields_present (device_status now device_id) \<and>
   required_fields_present (heartbeat now device_id) \<and>
   required_fields_present (list_files now device_id) \<and>
   (loads s = Inr (PDict kvs) \<and> CommandMessage_from_json loads s = Inr m \<longrightarrow>
      cm_fileName m = (case map_of kvs ''fileName'' of Some v \<Rightarrow> v | None \<Rightarrow> PNone) \<and>
      cm_uploadUrl m = (case map_of kvs ''uploadUrl'' of Some v \<Rightarrow> v | None \<Rightarrow> PNone) \<and>
      (required_fields_present m \<longleftrightarrow>
         (cm_command m = GET_VIDEO \<or> cm_command m = UPLOAD_TO_CLOUD \<longrightarrow>
            map_of kvs ''fileName'' \<noteq> None \<and> map_of kvs ''fileName'' \<noteq> Some PNone) \<and>
         (cm_command m = UPLOAD_TO_CLOUD \<longrightarrow>
            map_of kvs ''uploadUrl'' \<noteq> None \<and> map_of kvs ''uploadUrl'' \<noteq> Some PNone)))"
proof (intro conjI impI)
  show "get_video now file_name device_id =
     \<lparr>cm_command = GET_VIDEO, cm_timestamp = PFloat now, cm_deviceId = device_id,
      cm_fileName = file_name, cm_uploadUrl = PNone\<rparr>"
    by (simp add: get_video_def)
  show "upload_to_cloud now file_name upload_url device_id =
     \<lparr>cm_command = UPLOAD_TO_CLOUD, cm_timestamp = PFloat now, cm_deviceId = device_id,
      cm_fileName = file_name, cm_uploadUrl = upload_url\<rparr>"
    by (simp add: upload_to_cloud_def)
  show "cm_command (start_recording now ts device_id) = START_RECORDING"
    by (simp add: start_recording_def)
  show "cm_fileName (start_recording now ts device_id) = PNone"
    by (simp add: start_recording_def)
  show "cm_uploadUrl (start_recording now ts device_id) = PNone"
    by (simp add: start_recording_def)
  show "stop_recording now device_id =
     \<lparr>cm_command = STOP_RECORDING, cm_timestamp = PFloat now, cm_deviceId = device_id,
      cm_fileName = PNone, cm_uploadUrl = PNone\<rparr>"
    by (simp add: stop_recording_def)
  show "device_status now device_id =
     \<lparr>cm_command = DEVICE_STATUS, cm_timestamp = PFloat now, cm_deviceId = device_id,
      cm_fileName = PNone, cm_uploadUrl = PNone\<rparr>"
    by (simp add: device_status_def)
  show "heartbeat now device_id =
     \<lparr>cm_command = HEARTBEAT, cm_timestamp = PFloat now, cm_deviceId = device_id,
      cm_fileName = PNone, cm_uploadUrl = PNone\<rparr>"
    by (simp add: heartbeat_def)
  show "list_files now device_id =
     \<lparr>cm_command = LIST_FILES, cm_timestamp = PFloat now, cm_deviceId = device_id,
      cm_fileName = PNone, cm_uploadUrl = PNone\<rparr>"
    by (simp add: list_files_def)
  show "required_fields_present (get_video now file_name device_id)"
    if "file_name \<noteq> PNone"
    using that by (simp add: required_fields_present_def get_video_def)
  show "required_fields_present (upload_to_cloud now file_name upload_url device_id)"
    if "file_name \<noteq> PNone \<and> upload_url \<noteq> PNone"
    using that by (simp add: required_fields_present_def upload_to_cloud_def)
  show "required_fields_present (start_recording now ts device_id)"
    by (simp add: required_fields_present_def start_recording_def)
  show "required_fields_present (stop_recording now device_id)"
    by (simp add: required_fields_present_def stop_recording_def)
  show "required_fields_present (device_status now device_id)"
    by (simp add: required_fields_present_def device_status_def)
  show "required_fields_present (heartbeat now device_id)"
    by (simp add: required_fields_present_def heartbeat_def)
  show "required_fields_present (list_files now device_id)"
    by (simp add: required_fields_present_def list_files_def)
  assume dec: "loads s = Inr (PDict kvs) \<and> CommandMessage_from_json loads s = Inr m"
  then have l: "loads s = Inr (PDict kvs)" and r: "CommandMessage_from_json loads s = Inr m"
    by simp_all
  have f: "cm_fileName m = (case map_of kvs ''fileName'' of Some v \<Rightarrow> v | None \<Rightarrow> PNone)"
    using l r by (rule CommandMessage_from_json_fields)
  have u: "cm_uploadUrl m = (case map_of kvs ''uploadUrl'' of Some v \<Rightarrow> v | None \<Rightarrow> PNone)"
    using l r by (rule CommandMessage_from_json_fields)
  show "cm_fileName m = (case map_of kvs ''fileName'' of Some v \<Rightarrow> v | None \<Rightarrow> PNone)"
    by (rule f)
  show "cm_uploadUrl m = (case map_of kvs ''uploadUrl'' of Some v \<Rightarrow> v | None \<Rightarrow> PNone)"
    by (rule u)
  show "required_fields_present m \<longleftrightarrow>
         (cm_command m = GET_VIDEO \<or> cm_command m = UPLOAD_TO_CLOUD \<longrightarrow>
            map_of kvs ''fileName'' \<noteq> None \<and> map_of kvs ''fileName'' \<noteq> Some PNone) \<and>
         (cm_command m = UPLOAD_TO_CLOUD \<longrightarrow>
            map_of kvs ''uploadUrl'' \<noteq> None \<and> map_of kvs ''uploadUrl'' \<noteq> Some PNone)"
    unfolding required_fields_present_def f u
    by (cases "map_of kvs ''fileName''"; cases "map_of kvs ''uploadUrl''") simp_all
qed

lemma example_upload_document:
  "loads_example (dumps_example (CommandMessage_to_json_data example_command)) =
     Inr (PDict [(''command'', PStr ''UPLOAD_TO_CLOUD''), (''timestamp'', PFloat 1729000000.5),
            (''deviceId'', PStr ''controller''), (''fileName'', PStr ''clip_001.mp4''),
            (''uploadUrl'', PStr ''https://bucket.example/clip_001.mp4'')])"
  by (simp add: loads_example_def dumps_example_def json_examples_def
      CommandMessage_to_json_data_def example_command_def upload_to_cloud_def)

theorem required_fields_of_constructors_witness:
  "cm_command (get_video 1729000000.5 (PStr ''clip_001.mp4'') (PStr ''controller'')) =
     GET_VIDEO \<and>
   cm_fileName (get_video 1729000000.5 (PStr ''clip_001.mp4'') (PStr ''controller'')) =
     PStr ''clip_001.mp4'' \<and>
   cm_command
     (upload_to_cloud 1729000000.5 (PStr ''clip_001.mp4'')
        (PStr ''https://bucket.example/clip_001.mp4'') (PStr ''controller'')) =
     UPLOAD_TO_CLOUD \<and>
   cm_command (heartbeat 1729000000.5 (PStr ''controller'')) = HEARTBEAT \<and>
   required_fields_present (get_video 1729000000.5 (PStr ''clip_001.mp4'') (PStr ''controller'')) \<and>
   required_fields_present example_command \<and>
   CommandMessage_from_json loads_example
     (dumps_example (CommandMessage_to_json_data example_command)) = Inr example_command \<and>
   cm_fileName example_command = PStr ''clip_001.mp4'' \<and>
   cm_uploadUrl example_command = PStr ''https://bucket.example/clip_001.mp4''"
proof -
  let ?kvs = "[(''command'', PStr ''UPLOAD_TO_CLOUD''), (''timestamp'', PFloat 1729000000.5),
    (''deviceId'', PStr ''controller''), (''fileName'', PStr ''clip_001.mp4''),
    (''uploadUrl'', PStr ''https://bucket.example/clip_001.mp4'')]"
  let ?s = "dumps_example (CommandMessage_to_json_data example_command)"
  note inst = required_fields_of_constructors
    [where file_name = "PStr ''clip_001.mp4''" and now = "1729000000.5"
      and device_id = "PStr ''controller''"
      and upload_url = "PStr ''https://bucket.example/clip_001.mp4''" and ts = PNone
      and loads = loads_example and s = ?s and kvs = ?kvs and m = example_command]
  have dec: "CommandMessage_from_json loads_example ?s = Inr example_command"
    using CommandMessage_roundtrip [of loads_example dumps_example example_command]
    by (simp add: example_documents CommandMessage_to_json_def)
  from inst have g: "get_video 1729000000.5 (PStr ''clip_001.mp4'') (PStr ''controller'') =
      \<lparr>cm_command = GET_VIDEO, cm_timestamp = PFloat 1729000000.5,
       cm_deviceId = PStr ''controller'', cm_fileName = PStr ''clip_001.mp4'',
       cm_uploadUrl = PNone\<rparr>"
    by (elim conjE)
  from inst have u: "upload_to_cloud 1729000000.5 (PStr ''clip_001.mp4'')
        (PStr ''https://bucket.example/clip_001.mp4'') (PStr ''controller'') =
      \<lparr>cm_command = UPLOAD_TO_CLOUD, cm_timestamp = PFloat 1729000000.5,
       cm_deviceId = PStr ''controller'', cm_fileName = PStr ''clip_001.mp4'',
       cm_uploadUrl = PStr ''https://bucket.example/clip_001.mp4''\<rparr>"
    by (elim conjE)
  from inst have h: "heartbeat 1729000000.5 (PStr ''controller'') =
      \<lparr>cm_command = HEARTBEAT, cm_timestamp = PFloat 1729000000.5,
       cm_deviceId = PStr ''controller'', cm_fileName = PNone, cm_uploadUrl = PNone\<rparr>"
    by (elim conjE)
  from inst have "PStr ''clip_001.mp4'' \<noteq> PNone \<longrightarrow>
      required_fields_present
        (get_video 1729000000.5 (PStr ''clip_001.mp4'') (PStr ''controller''))"
    by (elim conjE)
  then have rg: "required_fields_present
      (get_video 1729000000.5 (PStr ''clip_001.mp4'') (PStr ''controller''))"
    by simp
  from inst have "loads_example ?s = Inr (PDict ?kvs) \<and>
      CommandMessage_from_json loads_example ?s = Inr example_command \<longrightarrow>
        cm_fileName example_command =
          (case map_of ?kvs ''fileName'' of Some v \<Rightarrow> v | None \<Rightarrow> PNone) \<and>
        cm_uploadUrl example_command =
          (case map_of ?kvs ''uploadUrl'' of Some v \<Rightarrow> v | None \<Rightarrow> PNone) \<and>
        (required_fields_present example_command \<longleftrightarrow>
           (cm_command example_command = GET_VIDEO \<or>
            cm_command example_command = UPLOAD_TO_CLOUD \<longrightarrow>
              map_of ?kvs ''fileName'' \<noteq> None \<and> map_of ?kvs ''fileName'' \<noteq> Some PNone) \<and>
           (cm_command example_command = UPLOAD_TO_CLOUD \<longrightarrow>
              map_of ?kvs ''uploadUrl'' \<noteq> None \<and> map_of ?kvs ''uploadUrl'' \<noteq> Some PNone))"
    by (elim conjE)
  then have decoded: "cm_fileName example_command = PStr ''clip_001.mp4''"
    "cm_uploadUrl example_command = PStr ''https://bucket.example/clip_001.mp4''"
    "required_fields_present example_command"
    by (simp_all add: example_upload_document dec)
  have gc: "cm_command (get_video 1729000000.5 (PStr ''clip_001.mp4'') (PStr ''controller'')) =
      GET_VIDEO"
    by (simp only: g CommandMessage.select_convs)
  have gf: "cm_fileName (get_video 1729000000.5 (PStr ''clip_001.mp4'') (PStr ''controller'')) =
      PStr ''clip_001.mp4''"
    by (simp only: g CommandMessage.select_convs)
  have uc: "cm_command
      (upload_to_cloud 1729000000.5 (PStr ''clip_001.mp4'')
         (PStr ''https://bucket.example/clip_001.mp4'') (PStr ''controller'')) =
      UPLOAD_TO_CLOUD"
    by (simp only: u CommandMessage.select_convs)
  have hc: "cm_command (heartbeat 1729000000.5 (PStr ''controller'')) = HEARTBEAT"
    by (simp only: h CommandMessage.select_convs)
  show ?thesis
    by (intro conjI gc gf uc hc rg dec decoded)
qed

subsection \<open>The timestamp of \<open>start_recording\<close>\<close>

text \<open>
  Claim C8: for every timestamp \<open>t\<close> other than zero,
  \<open>start_recording(t, d)\<close> is the \<open>START_RECORDING\<close> command with device id \<open>d\<close>
  and timestamp \<open>t\<close>; for \<open>t = 0.0\<close> the given timestamp is dropped and the current
  time is used, exactly as for \<open>None\<close>, so this constructor cannot schedule a recording at
  Unix time 0.
\<close>

theorem start_recording_timestamp:
  "(t \<noteq> 0 \<longrightarrow>
      start_recording now (PFloat t) d =
        \<lparr>cm_command = START_RECORDING, cm_timestamp = PFloat t, cm_deviceId = d,
         cm_fileName = PNone, cm_uploadUrl = PNone\<rparr>) \<and>
   (i \<noteq> 0 \<longrightarrow>
      start_recording now (PInt i) d =
        \<lparr>cm_command = START_RECORDING, cm_timestamp = PInt i, cm_deviceId = d,
         cm_fileName = PNone, cm_uploadUrl = PNone\<rparr>) \<and>
   start_recording now (PFloat 0) d = start_recording now PNone d \<and>
   start_recording now PNone d =
     \<lparr>cm_command = START_RECORDING, cm_timestamp = PFloat now, cm_deviceId = d,
      cm_fileName = PNone, cm_uploadUrl = PNone\<rparr> \<and>
   (now \<noteq> 0 \<longrightarrow> cm_timestamp (start_recording now (PFloat 0) d) \<noteq> PFloat 0)"
  by (simp add: start_recording_def)

theorem start_recording_timestamp_witness:
  "start_recording 1729000000.5 (PFloat 1729000030) (PStr ''controller'') =
     \<lparr>cm_command = START_RECORDING, cm_timestamp = PFloat 1729000030,
      cm_deviceId = PStr ''controller'', cm_fileName = PNone, cm_uploadUrl = PNone\<rparr> \<and>
   cm_timestamp (start_recording 1729000000.5 (PFloat 0) (PStr ''controller'')) =
     PFloat 1729000000.5 \<and>
   cm_timestamp (start_recording 1729000000.5 (PFloat 0) (PStr ''controller'')) \<noteq> PFloat 0"
  using start_recording_timestamp [where t = 1729000030 and now = "1729000000.5"
      and d = "PStr ''controller''" and i = 1]
  by simp

subsection \<open>Defaults for absent optional keys\<close>

lemma upload_items_of_absent:
  assumes "map_of kvs key = None"
  shows "upload_items_of (PDict kvs) key = Inr []"
  by (simp add: upload_items_of_def assms)

lemma CommandMessage_from_json_object:
  assumes "loads s = Inr (PDict kvs)"
    and "map_of kvs ''command'' = Some (PStr (CommandType_value c))"
    and "map_of kvs ''timestamp'' = Some t"
  shows "CommandMessage_from_json loads s =
     Inr \<lparr>cm_command = c, cm_timestamp = t,
          cm_deviceId =
            (case map_of kvs ''deviceId'' of Some v \<Rightarrow> v | None \<Rightarrow> PStr ''controller''),
          cm_fileName = (case map_of kvs ''fileName'' of Some v \<Rightarrow> v | None \<Rightarrow> PNone),
          cm_uploadUrl = (case map_of kvs ''uploadUrl'' of Some v \<Rightarrow> v | None \<Rightarrow> PNone)\<rparr>"
  by (simp add: CommandMessage_from_json_def assms CommandType_call_value
      del: CommandType_call.simps)

lemma StatusResponse_from_json_object:
  assumes "loads s = Inr (PDict kvs)"
    and "upload_items_of (PDict kvs) ''uploadQueue'' = Inr uq"
    and "upload_items_of (PDict kvs) ''failedUploadQueue'' = Inr fq"
    and "map_of kvs ''deviceId'' = Some dev"
    and "map_of kvs ''status'' = Some st"
    and "map_of kvs ''timestamp'' = Some t"
  shows "StatusResponse_from_json loads s =
     Inr \<lparr>sr_deviceId = dev, sr_status = st, sr_timestamp = t,
          sr_batteryLevel = (case map_of kvs ''batteryLevel'' of Some v \<Rightarrow> v | None \<Rightarrow> PNone),
          sr_uploadQueue = uq, sr_failedUploadQueue = fq\<rparr>"
  unfolding StatusResponse_from_json_def assms(1,2,3) bind_result_Inr
  by (simp add: assms(4,5,6))

text \<open>
  Claim C9: decoding tolerates absent optional keys. \<open>CommandMessage.from_json\<close> on a
  JSON object that has a known \<open>command\<close> and a \<open>timestamp\<close> succeeds; without
  \<open>deviceId\<close> the device id is \<open>controller\<close>, without \<open>fileName\<close> or
  \<open>uploadUrl\<close> the field is \<open>None\<close>. \<open>StatusResponse.from_json\<close> on a JSON
  object that has \<open>deviceId\<close>, \<open>status\<close> and \<open>timestamp\<close> succeeds without
  \<open>uploadQueue\<close> or without \<open>failedUploadQueue\<close> (the other queue, if present,
  being a list of upload items) and gives the empty list for the absent queue.
\<close>

theorem from_json_absent_keys:
  "(loads s = Inr (PDict kvs) \<and>
    map_of kvs ''command'' = Some (PStr (CommandType_value c)) \<and>
    map_of kvs ''timestamp'' = Some t \<longrightarrow>
      CommandMessage_from_json loads s =
        Inr \<lparr>cm_command = c, cm_timestamp = t,
             cm_deviceId =
               (case map_of kvs ''deviceId'' of Some v \<Rightarrow> v | None \<Rightarrow> PStr ''controller''),
             cm_fileName = (case map_of kvs ''fileName'' of Some v \<Rightarrow> v | None \<Rightarrow> PNone),
             cm_uploadUrl =
               (case map_of kvs ''uploadUrl'' of Some v \<Rightarrow> v | None \<Rightarrow> PNone)\<rparr>) \<and>
   (loads s = Inr (PDict kvs) \<and>
    map_of kvs ''deviceId'' = Some dev \<and> map_of kvs ''status'' = Some st \<and>
    map_of kvs ''timestamp'' = Some t \<and>
    map_of kvs ''uploadQueue'' = None \<and>
    upload_items_of (PDict kvs) ''failedUploadQueue'' = Inr fq \<longrightarrow>
      StatusResponse_from_json loads s =
        Inr \<lparr>sr_deviceId = dev, sr_status = st, sr_timestamp = t,
             sr_batteryLevel =
               (case map_of kvs ''batteryLevel'' of Some v \<Rightarrow> v | None \<Rightarrow> PNone),
             sr_uploadQueue = [], sr_failedUploadQueue = fq\<rparr>) \<and>
   (loads s = Inr (PDict kvs) \<and>
    map_of kvs ''deviceId'' = Some dev \<and> map_of kvs ''status'' = Some st \<and>
    map_of kvs ''timestamp'' = Some t \<and>
    upload_items_of (PDict kvs) ''uploadQueue'' = Inr uq \<and>
    map_of kvs ''failedUploadQueue'' = None \<longrightarrow>
      StatusResponse_from_json loads s =
        Inr \<lparr>sr_deviceId = dev, sr_status = st, sr_timestamp = t,
             sr_batteryLevel =
               (case map_of kvs ''batteryLevel'' of Some v \<Rightarrow> v | None \<Rightarrow> PNone),
             sr_uploadQueue = uq, sr_failedUploadQueue = []\<rparr>) \<and>
   (map_of kvs key = None \<longrightarrow> upload_items_of (PDict kvs) key = Inr [])"
proof (intro conjI impI)
  assume "loads s = Inr (PDict kvs) \<and>
    map_of kvs ''command'' = Some (PStr (CommandType_value c)) \<and>
    map_of kvs ''timestamp'' = Some t"
  then show "CommandMessage_from_json loads s =
        Inr \<lparr>cm_command = c, cm_timestamp = t,
             cm_deviceId =
               (case map_of kvs ''deviceId'' of Some v \<Rightarrow> v | None \<Rightarrow> PStr ''controller''),
             cm_fileName = (case map_of kvs ''fileName'' of Some v \<Rightarrow> v | None \<Rightarrow> PNone),
             cm_uploadUrl =
               (case map_of kvs ''uploadUrl'' of Some v \<Rightarrow> v | None \<Rightarrow> PNone)\<rparr>"
    by (elim conjE) (rule CommandMessage_from_json_object)
next
  assume a: "loads s = Inr (PDict kvs) \<and>
    map_of kvs ''deviceId'' = Some dev \<and> map_of kvs ''status'' = Some st \<and>
    map_of kvs ''timestamp'' = Some t \<and>
    map_of kvs ''uploadQueue'' = None \<and>
    upload_items_of (PDict kvs) ''failedUploadQueue'' = Inr fq"
  then have "upload_items_of (PDict kvs) ''uploadQueue'' = Inr []"
    by (simp add: upload_items_of_absent)
  with a show "StatusResponse_from_json loads s =
        Inr \<lparr>sr_deviceId = dev, sr_status = st, sr_timestamp = t,
             sr_batteryLevel =
               (case map_of kvs ''batteryLevel'' of Some v \<Rightarrow> v | None \<Rightarrow> PNone),
             sr_uploadQueue = [], sr_failedUploadQueue = fq\<rparr>"
    by (elim conjE) (rule StatusResponse_from_json_object)
next
  assume a: "loads s = Inr (PDict kvs) \<and>
    map_of kvs ''deviceId'' = Some dev \<and> map_of kvs ''status'' = Some st \<and>
    map_of kvs ''timestamp'' = Some t \<and>
    upload_items_of (PDict kvs) ''uploadQueue'' = Inr uq \<and>
    map_of kvs ''failedUploadQueue'' = None"
  then have "upload_items_of (PDict kvs) ''failedUploadQueue'' = Inr []"
    by (simp add: upload_items_of_absent)
  with a show "StatusResponse_from_json loads s =
        Inr \<lparr>sr_deviceId = dev, sr_status = st, sr_timestamp = t,
             sr_batteryLevel =
               (case map_of kvs ''batteryLevel'' of Some v \<Rightarrow> v | None \<Rightarrow> PNone),
             sr_uploadQueue = uq, sr_failedUploadQueue = []\<rparr>"
    by (elim conjE) (rule StatusResponse_from_json_object)
next
  assume "map_of kvs key = None"
  then show "upload_items_of (PDict kvs) key = Inr []"
    by (rule upload_items_of_absent)
qed

lemma example_bare_documents:
  \<open>loads_example ''{"command": "GET_VIDEO", "timestamp": 1729000000.5}'' =
     Inr (PDict [(''command'', PStr (CommandType_value GET_VIDEO)),
            (''timestamp'', PFloat 1729000000.5)])\<close>
  \<open>loads_example
     (''{"deviceId": "Mountain-A1B2C3D4", "status": "ready", '' @
      ''"timestamp": 1729000000.5, "batteryLevel": 87.5}'') =
     Inr (PDict [(''deviceId'', PStr ''Mountain-A1B2C3D4''), (''status'', PStr ''ready''),
            (''timestamp'', PFloat 1729000000.5), (''batteryLevel'', PFloat 87.5)])\<close>
  by (simp_all add: loads_example_def json_examples_def)

theorem from_json_absent_keys_witness:
  \<open>CommandMessage_from_json loads_example
     ''{"command": "GET_VIDEO", "timestamp": 1729000000.5}'' =
     Inr \<lparr>cm_command = GET_VIDEO, cm_timestamp = PFloat 1729000000.5,
          cm_deviceId = PStr ''controller'', cm_fileName = PNone, cm_uploadUrl = PNone\<rparr> \<and>
   StatusResponse_from_json loads_example
     (''{"deviceId": "Mountain-A1B2C3D4", "status": "ready", '' @
      ''"timestamp": 1729000000.5, "batteryLevel": 87.5}'') =
     Inr \<lparr>sr_deviceId = PStr ''Mountain-A1B2C3D4'', sr_status = PStr ''ready'',
          sr_timestamp = PFloat 1729000000.5, sr_batteryLevel = PFloat 87.5,
          sr_uploadQueue = [], sr_failedUploadQueue = []\<rparr>\<close>
proof -
  let ?cmd = \<open>''{"command": "GET_VIDEO", "timestamp": 1729000000.5}''\<close>
  let ?ckvs = "[(''command'', PStr (CommandType_value GET_VIDEO)),
    (''timestamp'', PFloat 1729000000.5)]"
  let ?st = \<open>''{"deviceId": "Mountain-A1B2C3D4", "status": "ready", '' @
      ''"timestamp": 1729000000.5, "batteryLevel": 87.5}''\<close>
  let ?skvs = "[(''deviceId'', PStr ''Mountain-A1B2C3D4''), (''status'', PStr ''ready''),
    (''timestamp'', PFloat 1729000000.5), (''batteryLevel'', PFloat 87.5)]"
  have none: "upload_items_of (PDict ?skvs) ''failedUploadQueue'' = Inr []"
    by (simp add: upload_items_of_def)
  have keys: "map_of ?ckvs ''command'' = Some (PStr (CommandType_value GET_VIDEO))"
    "map_of ?ckvs ''timestamp'' = Some (PFloat 1729000000.5)"
    "map_of ?ckvs ''deviceId'' = None" "map_of ?ckvs ''fileName'' = None"
    "map_of ?ckvs ''uploadUrl'' = None"
    "map_of ?skvs ''deviceId'' = Some (PStr ''Mountain-A1B2C3D4'')"
    "map_of ?skvs ''status'' = Some (PStr ''ready'')"
    "map_of ?skvs ''timestamp'' = Some (PFloat 1729000000.5)"
    "map_of ?skvs ''batteryLevel'' = Some (PFloat 87.5)"
    "map_of ?skvs ''uploadQueue'' = None"
    by simp_all
  have "CommandMessage_from_json loads_example ?cmd =
     Inr \<lparr>cm_command = GET_VIDEO, cm_timestamp = PFloat 1729000000.5,
          cm_deviceId = PStr ''controller'', cm_fileName = PNone, cm_uploadUrl = PNone\<rparr>"
    using from_json_absent_keys [where loads = loads_example and s = ?cmd and kvs = ?ckvs
        and c = GET_VIDEO and t = "PFloat 1729000000.5"]
    by (simp only: example_bare_documents keys simp_thms option.case)
  moreover have "StatusResponse_from_json loads_example ?st =
     Inr \<lparr>sr_deviceId = PStr ''Mountain-A1B2C3D4'', sr_status = PStr ''ready'',
          sr_timestamp = PFloat 1729000000.5, sr_batteryLevel = PFloat 87.5,
          sr_uploadQueue = [], sr_failedUploadQueue = []\<rparr>"
    using from_json_absent_keys [where loads = loads_example and s = ?st and kvs = ?skvs
        and dev = "PStr ''Mountain-A1B2C3D4''" and st = "PStr ''ready''"
        and t = "PFloat 1729000000.5" and fq = "[]"]
    by (simp only: example_bare_documents keys none simp_thms option.case)
  ultimately show ?thesis
    by (rule conjI)
qed

section \<open>Properties of the binary framing\<close>

subsection \<open>Length prefix and bytes\<close>

lemma be32_decode_encode: "be32_decode (be32_encode w) = w"
proof (rule bit_word_eqI)
  fix n
  assume "n < LENGTH(32)"
  then consider "n < 8" | "8 \<le> n" "n < 16" | "16 \<le> n" "n < 24" | "24 \<le> n" "n < 32"
    by fastforce
  then show "bit (be32_decode (be32_encode w)) n \<longleftrightarrow> bit w n"
    unfolding be32_decode_def be32_encode_def
    by cases (auto simp add: bit_simps)
qed

lemma length_be32_encode: "length (be32_encode w) = 4"
  by (simp add: be32_encode_def)

lemma utf8_decode_encode: "utf8_decode (utf8_encode s) = s"
  by (induction s) (simp_all add: utf8_decode_def utf8_encode_def unat_of_nat)

lemma length_utf8_encode: "length (utf8_encode s) = length s"
  by (simp add: utf8_encode_def)

subsection \<open>Reading a frame step by step\<close>

lemma frame_encode_layout:
  "frame_encode dumps h content =
     be32_encode (word_of_nat (length (dumps (FileResponse_asdict h)))) @
     utf8_encode (dumps (FileResponse_asdict h)) @ content"
  by (simp add: frame_encode_def FileResponse_to_json_def Let_def length_utf8_encode)

lemma unat_header_length:
  assumes "n < 2 ^ 32"
  shows "unat (word_of_nat n :: 32 word) = n"
  using assms by (simp add: unat_of_nat)

lemma FileResponse_from_dict_asdict:
  assumes "loads s = Inr (FileResponse_asdict h)"
  shows "FileResponse_from_json loads s = Inr h"
  unfolding FileResponse_from_json_def assms bind_result_Inr
  by (simp add: FileResponse_asdict_def)

lemma frame_decode_short:
  assumes "length stream < 4"
  shows "frame_decode loads stream = Inl TruncatedStream"
  using assms by (simp add: frame_decode_def)

lemma frame_decode_short_header:
  assumes "length pre = 4" and "length rest < unat (be32_decode pre)"
  shows "frame_decode loads (pre @ rest) = Inl TruncatedStream"
  using assms by (simp add: frame_decode_def)

lemma frame_decode_header_read:
  assumes "length pre = 4" and "unat (be32_decode pre) = length js"
    and "FileResponse_from_json loads (utf8_decode js) = Inr h"
    and "fr_fileSize h = PInt (int m)"
  shows "frame_decode loads (pre @ js @ payload) =
           (if length payload < m then Inl TruncatedStream else Inr (h, take m payload))"
  using assms by (simp add: frame_decode_def)

lemma frame_decode_complete:
  assumes ok: "frame_decode loads stream = Inr (header, payload)"
  shows "4 + unat (be32_decode (take 4 stream)) + length payload \<le> length stream \<and>
         fr_fileSize header = PInt (int (length payload)) \<and>
         FileResponse_from_json loads
           (utf8_decode (take (unat (be32_decode (take 4 stream))) (drop 4 stream))) =
           Inr header \<and>
         payload =
           take (length payload) (drop (unat (be32_decode (take 4 stream))) (drop 4 stream))"
proof -
  define n where "n = unat (be32_decode (take 4 stream))"
  define rest where "rest = drop 4 stream"
  have l4: "4 \<le> length stream"
    using ok by (cases "length stream < 4") (simp_all add: frame_decode_def)
  have ln: "n \<le> length rest"
    using ok l4
    by (cases "length rest < n") (simp_all add: frame_decode_def n_def rest_def)
  have step: "frame_decode loads stream =
      (case FileResponse_from_json loads (utf8_decode (take n rest)) of
         Inl e \<Rightarrow> Inl (decode_error_of e)
       | Inr header \<Rightarrow>
           (case fr_fileSize header of
              PInt file_size \<Rightarrow>
                if file_size < 0 then Inl MalformedJson
                else if int (length (drop n rest)) < file_size then Inl TruncatedStream
                else Inr (header, take (nat file_size) (drop n rest))
            | _ \<Rightarrow> Inl MalformedJson))"
    using l4 ln unfolding n_def rest_def by (simp add: frame_decode_def Let_def)
  obtain hdr where parse: "FileResponse_from_json loads (utf8_decode (take n rest)) = Inr hdr"
    using ok unfolding step
    by (cases "FileResponse_from_json loads (utf8_decode (take n rest))") simp_all
  obtain file_size where fs: "fr_fileSize hdr = PInt file_size"
    using ok unfolding step parse by (cases "fr_fileSize hdr") simp_all
  have nonneg: "0 \<le> file_size"
    using ok unfolding step parse by (cases "file_size < 0") (simp_all add: fs)
  have enough: "file_size \<le> int (length (drop n rest))"
    using ok nonneg unfolding step parse
    by (cases "int (length (drop n rest)) < file_size") (simp_all add: fs)
  have result: "header = hdr" "payload = take (nat file_size) (drop n rest)"
    using ok nonneg enough unfolding step parse by (simp_all add: fs)
  have lp: "length payload = nat file_size"
    using enough nonneg by (simp add: result)
  have "4 + n + length payload \<le> length stream"
    using l4 ln enough nonneg by (simp add: lp rest_def)
  moreover have "fr_fileSize header = PInt (int (length payload))"
    using nonneg by (simp add: result(1) fs lp)
  moreover have "FileResponse_from_json loads (utf8_decode (take n rest)) = Inr header"
    by (simp add: parse result(1))
  moreover have "payload = take (length payload) (drop n rest)"
    by (simp add: lp) (simp add: result(2))
  ultimately show ?thesis
    by (simp add: n_def rest_def)
qed

subsection \<open>Frames written by the encoder\<close>

lemma frame_decode_prefix:
  assumes law: "loads (dumps (FileResponse_asdict h)) = Inr (FileResponse_asdict h)"
    and len: "length (dumps (FileResponse_asdict h)) < 2 ^ 32"
    and fsize: "fr_fileSize h = PInt (int (length content))"
  shows "frame_decode loads (take k (frame_encode dumps h content)) =
           (if k < length (frame_encode dumps h content) then Inl TruncatedStream
            else Inr (h, content))"
proof -
  define js where "js = utf8_encode (dumps (FileResponse_asdict h))"
  define n where "n = length (dumps (FileResponse_asdict h))"
  define pre where "pre = be32_encode (word_of_nat n)"
  have frame: "frame_encode dumps h content = pre @ js @ content"
    by (simp add: frame_encode_layout js_def n_def pre_def)
  have lpre: "length pre = 4"
    by (simp add: pre_def length_be32_encode)
  have ljs: "length js = n"
    by (simp add: js_def n_def length_utf8_encode)
  have total: "length (frame_encode dumps h content) = 4 + n + length content"
    by (simp add: frame lpre ljs)
  have dec: "unat (be32_decode pre) = length js"
    using len by (simp add: pre_def be32_decode_encode n_def unat_header_length ljs)
  have parse: "FileResponse_from_json loads (utf8_decode js) = Inr h"
    by (rule FileResponse_from_dict_asdict) (simp add: js_def utf8_decode_encode law)
  consider (prefix) "k < 4" | (header) "4 \<le> k" "k < 4 + n" | (payload) "4 + n \<le> k"
    by linarith
  then show ?thesis
  proof cases
    case prefix
    then have "length (take k (frame_encode dumps h content)) < 4"
      by simp
    then have "frame_decode loads (take k (frame_encode dumps h content)) = Inl TruncatedStream"
      by (rule frame_decode_short)
    with prefix show ?thesis
      by (simp add: total)
  next
    case header
    then have split: "take k (pre @ js @ content) = pre @ take (k - 4) js"
      by (simp add: lpre ljs)
    have "length (take (k - 4) js) < unat (be32_decode pre)"
      using header by (simp add: dec ljs)
    with lpre have "frame_decode loads (pre @ take (k - 4) js) = Inl TruncatedStream"
      by (rule frame_decode_short_header)
    then have "frame_decode loads (take k (frame_encode dumps h content)) = Inl TruncatedStream"
      by (simp only: frame split)
    with header show ?thesis
      by (simp add: total)
  next
    case payload
    then have split: "take k (pre @ js @ content) = pre @ js @ take (k - 4 - n) content"
      by (simp add: lpre ljs)
    have "frame_decode loads (pre @ js @ take (k - 4 - n) content) =
            (if length (take (k - 4 - n) content) < length content then Inl TruncatedStream
             else Inr (h, take (length content) (take (k - 4 - n) content)))"
      using lpre dec parse fsize by (rule frame_decode_header_read)
    then have "frame_decode loads (take k (frame_encode dumps h content)) =
            (if length (take (k - 4 - n) content) < length content then Inl TruncatedStream
             else Inr (h, take (length content) (take (k - 4 - n) content)))"
      by (simp only: frame split)
    with payload show ?thesis
      by (auto simp add: total min_def)
  qed
qed

text \<open>
  Claim C6: the reply to a successful \<open>GET_VIDEO\<close> is a 4-byte big-endian unsigned
  length prefix \<open>N\<close>, then exactly \<open>N\<close> bytes that are the JSON encoding of the
  \<open>FileResponse\<close> header with the fields \<open>deviceId\<close>, \<open>fileName\<close>,
  \<open>fileSize\<close> and \<open>status\<close>, then exactly \<open>fileSize\<close> raw bytes of content. The
  decoder gives back the header and the content of such a frame; on every proper prefix
  of it, that is with fewer bytes than the prefix or \<open>fileSize\<close> announce, it reports
  a truncated stream; and on any byte stream at all it succeeds only if the stream holds
  the four prefix bytes, the announced header bytes and \<open>fileSize\<close> payload bytes.
\<close>

theorem file_transfer_framing:
  "(loads (dumps (FileResponse_asdict h)) = Inr (FileResponse_asdict h) \<and>
    length (dumps (FileResponse_asdict h)) < 2 ^ 32 \<and>
    fr_fileSize h = PInt (int (length content)) \<longrightarrow>
      frame_encode dumps h content =
        be32_encode (word_of_nat (length (FileResponse_to_json dumps h))) @
        utf8_encode (FileResponse_to_json dumps h) @ content \<and>
      length (be32_encode (word_of_nat (length (FileResponse_to_json dumps h)))) = 4 \<and>
      unat (be32_decode (be32_encode (word_of_nat (length (FileResponse_to_json dumps h))))) =
        length (utf8_encode (FileResponse_to_json dumps h)) \<and>
      FileResponse_asdict h =
        PDict [(''deviceId'', fr_deviceId h), (''fileName'', fr_fileName h),
               (''fileSize'', PInt (int (length content))), (''status'', fr_status h)] \<and>
      frame_decode loads (frame_encode dumps h content) = Inr (h, content) \<and>
      (\<forall>k < length (frame_encode dumps h content).
         frame_decode loads (take k (frame_encode dumps h content)) = Inl TruncatedStream)) \<and>
   (length stream < 4 \<longrightarrow> frame_decode loads stream = Inl TruncatedStream) \<and>
   (4 \<le> length stream \<and> length stream < 4 + unat (be32_decode (take 4 stream)) \<longrightarrow>
      frame_decode loads stream = Inl TruncatedStream) \<and>
   (frame_decode loads stream = Inr (header, payload) \<longrightarrow>
      4 + unat (be32_decode (take 4 stream)) + length payload \<le> length stream \<and>
      fr_fileSize header = PInt (int (length payload)))"
proof (intro conjI impI allI)
  assume a: "loads (dumps (FileResponse_asdict h)) = Inr (FileResponse_asdict h) \<and>
    length (dumps (FileResponse_asdict h)) < 2 ^ 32 \<and>
    fr_fileSize h = PInt (int (length content))"
  then have law: "loads (dumps (FileResponse_asdict h)) = Inr (FileResponse_asdict h)"
    and len: "length (dumps (FileResponse_asdict h)) < 2 ^ 32"
    and fsize: "fr_fileSize h = PInt (int (length content))"
    by simp_all
  note prefix = frame_decode_prefix [where loads = loads and dumps = dumps and h = h
      and content = content, OF law len fsize]
  show "frame_encode dumps h content =
        be32_encode (word_of_nat (length (FileResponse_to_json dumps h))) @
        utf8_encode (FileResponse_to_json dumps h) @ content"
    by (simp add: frame_encode_layout FileResponse_to_json_def)
  show "length (be32_encode (word_of_nat (length (FileResponse_to_json dumps h)))) = 4"
    by (rule length_be32_encode)
  show "unat (be32_decode (be32_encode (word_of_nat (length (FileResponse_to_json dumps h))))) =
        length (utf8_encode (FileResponse_to_json dumps h))"
    using len
    by (simp add: be32_decode_encode unat_header_length length_utf8_encode
        FileResponse_to_json_def)
  show "FileResponse_asdict h =
        PDict [(''deviceId'', fr_deviceId h), (''fileName'', fr_fileName h),
               (''fileSize'', PInt (int (length content))), (''status'', fr_status h)]"
    by (simp add: FileResponse_asdict_def fsize)
  show "frame_decode loads (frame_encode dumps h content) = Inr (h, content)"
    using prefix [of "length (frame_encode dumps h content)"] by simp
  show "frame_decode loads (take k (frame_encode dumps h content)) = Inl TruncatedStream"
    if "k < length (frame_encode dumps h content)" for k
    using prefix [of k] that by simp
next
  assume "length stream < 4"
  then show "frame_decode loads stream = Inl TruncatedStream"
    by (rule frame_decode_short)
next
  assume "4 \<le> length stream \<and> length stream < 4 + unat (be32_decode (take 4 stream))"
  then show "frame_decode loads stream = Inl TruncatedStream"
    by (auto simp add: frame_decode_def Let_def)
next
  assume ok: "frame_decode loads stream = Inr (header, payload)"
  show "4 + unat (be32_decode (take 4 stream)) + length payload \<le> length stream"
    using frame_decode_complete [OF ok] by simp
  show "fr_fileSize header = PInt (int (length payload))"
    using frame_decode_complete [OF ok] by simp
qed

lemma example_file_text_length:
  "length (dumps_example (FileResponse_asdict example_file)) = 100"
  by (simp add: dumps_example_def json_examples_def FileResponse_asdict_def example_file_def)

theorem file_transfer_framing_witness:
  "frame_decode loads_example
     (frame_encode dumps_example example_file (replicate 524288 0)) =
     Inr (example_file, replicate 524288 0) \<and>
   frame_decode loads_example
     (take 524391 (frame_encode dumps_example example_file (replicate 524288 0))) =
     Inl TruncatedStream \<and>
   frame_decode loads_example
     (take 50 (frame_encode dumps_example example_file (replicate 524288 0))) =
     Inl TruncatedStream \<and>
   length (frame_encode dumps_example example_file (replicate 524288 0)) = 524392"
proof -
  let ?content = "replicate 524288 (0 :: byte)"
  have size: "fr_fileSize example_file = PInt (int (length ?content))"
    by (simp add: example_file_def)
  have total: "length (frame_encode dumps_example example_file ?content) = 524392"
    by (simp add: frame_encode_layout length_be32_encode length_utf8_encode
        example_file_text_length)
  have hyp: "loads_example (dumps_example (FileResponse_asdict example_file)) =
      Inr (FileResponse_asdict example_file) \<and>
    length (dumps_example (FileResponse_asdict example_file)) < 2 ^ 32 \<and>
    fr_fileSize example_file = PInt (int (length ?content))"
    by (simp only: example_documents example_file_text_length size) simp
  from file_transfer_framing [where loads = loads_example and dumps = dumps_example
      and h = example_file and content = ?content and stream = "[]"] hyp
  have dec: "frame_decode loads_example (frame_encode dumps_example example_file ?content) =
      Inr (example_file, ?content)"
    and cut: "\<forall>k < length (frame_encode dumps_example example_file ?content).
      frame_decode loads_example (take k (frame_encode dumps_example example_file ?content)) =
        Inl TruncatedStream"
    by blast+
  from cut total show ?thesis
    by (simp add: dec)
qed

end
